theory Spec2Isabelle
  imports Complex_Main "HOL-Library.Multiset"
begin

section \<open>Common data\<close>

text \<open>
  The Python exceptions that the modelled functions can raise. A function that can
  raise returns \<open>py_error + 'a\<close>, with \<open>Inl\<close> for the exception.
  Python floats are modelled as exact reals; \<open>NotANumber\<close> stands for the float
  \<open>nan\<close>, which a result can be without an exception and which is no real number.
\<close>

datatype py_error =
    AssertionError
  | NotImplementedError
  | ZeroDivisionError
  | ValueError
  | KeyError
  | TypeError
  | RuntimeError
  | AttributeError
  | IndexError
  | UnboundLocalError
  | NotANumber

section \<open>runners/losses/pigan\_loss.py: tensors, dictionaries and the runner\<close>

text \<open>
  An image has the dimensions channel, height and width; a batch of images is a list of
  images (the first dimension of the tensor is the position in the list).
  A tensor in a result dictionary is the list of its slices along the first dimension:
  scalars for a tensor of per-sample scores, vectors for latent codes, cameras and
  labels, images for a batch of images. A dictionary value is such a tensor, \<open>None\<close>, or
  an object of another type.
\<close>

type_synonym image = "real list list list"

type_synonym tensor4 = "image list"

datatype tslice = Sc real | Vec "real list" | Img image

datatype pyval = Tensor "tslice list" | PNone | PObj

type_synonym kwargs = "(string \<times> real) list"

type_synonym pydict = "string \<rightharpoonup> pyval"

text \<open>
  \<open>torch.cuda.amp.GradScaler\<close> as the loss uses it: \<open>scale\<close> multiplies by the scale
  factor when the scaler is enabled and returns its argument otherwise,
  \<open>get_scale\<close> is the factor (1 when disabled).
\<close>

record GradScaler =
  is_enabled :: bool
  scale_factor :: real

definition scale :: "GradScaler \<Rightarrow> real \<Rightarrow> real" where
  "scale amp_scaler x = (if is_enabled amp_scaler then x * scale_factor amp_scaler else x)"

definition get_scale :: "GradScaler \<Rightarrow> real" where
  "get_scale amp_scaler = (if is_enabled amp_scaler then scale_factor amp_scaler else 1)"

text \<open>
  The runner, as far as the loss reads it. The two networks are functions from their
  inputs and keyword arguments to a result dictionary (its items, in order);
  \<open>augment\<close> is \<open>runner.augment\<close> with \<open>runner.augment_kwargs\<close> applied.
  \<open>latent_noise i\<close> is the \<open>i\<close>-th row that \<open>torch.randn\<close> draws and
  \<open>label_noise i\<close> the \<open>i\<close>-th class that \<open>torch.randint\<close> draws.
\<close>

record runner =
  batch_size :: nat
  iter :: int
  lod :: real
  enable_amp :: bool
  amp_scaler :: GradScaler
  generator_label_dim :: nat
  generator :: "tslice list \<Rightarrow> tslice list option \<Rightarrow> kwargs \<Rightarrow> (string \<times> pyval) list"
  discriminator :: "tslice list \<Rightarrow> tslice list option \<Rightarrow> kwargs \<Rightarrow> (string \<times> pyval) list"
  model_kwargs_train_generator :: kwargs
  model_kwargs_train_discriminator :: kwargs
  augment :: "tslice list \<Rightarrow> tslice list"
  latent_noise :: "nat \<Rightarrow> tslice"
  label_noise :: "nat \<Rightarrow> nat"

subsection \<open>Python and torch helpers\<close>

text \<open>\<open>xs[a:b]\<close> for \<open>0 \<le> a\<close>, \<open>0 \<le> b\<close>: the slice is clipped to the list.\<close>

definition py_slice :: "'a list \<Rightarrow> nat \<Rightarrow> nat \<Rightarrow> 'a list" where
  "py_slice xs a b = take (b - a) (drop a xs)"

text \<open>\<open>range(0, stop, step)\<close> for a positive step (a zero step raises \<open>ValueError\<close>).\<close>

definition py_range :: "nat \<Rightarrow> nat \<Rightarrow> nat list" where
  "py_range stop step = map (\<lambda>k. k * step) [0..<(stop + step - 1) div step]"

text \<open>
  The shape of a slice: its number of dimensions and the lengths of its rows. Two slices
  of the same shape have the same \<open>slice_dims\<close>.
\<close>

fun slice_dims :: "tslice \<Rightarrow> nat \<times> nat list list" where
  "slice_dims (Sc v) = (0, [])"
| "slice_dims (Vec v) = (1, [[length v]])"
| "slice_dims (Img i) = (3, map (map length) i)"

text \<open>
  \<open>torch.cat([a, rows])\<close> along the first dimension, where \<open>a\<close> is the value stored in
  the dictionary: the rows are appended. A stored value that is no tensor raises
  \<open>TypeError\<close>, and slices of different shapes raise \<open>RuntimeError\<close> (the sizes of the
  tensors must match except in the first dimension). A tensor without slices is read as
  the tensor of the shape \<open>(0,)\<close>, which \<open>torch.cat\<close> accepts beside any tensor.
\<close>

definition torch_cat :: "pyval \<Rightarrow> tslice list \<Rightarrow> py_error + pyval" where
  "torch_cat a rows =
     (case a of
        Tensor xs \<Rightarrow>
          if list_all (\<lambda>x. list_all (\<lambda>y. slice_dims x = slice_dims y) rows) xs
          then Inr (Tensor (xs @ rows))
          else Inl RuntimeError
      | _ \<Rightarrow> Inl TypeError)"

text \<open>\<open>F.one_hot\<close> of a list of classes.\<close>

definition one_hot :: "nat list \<Rightarrow> nat \<Rightarrow> tslice list" where
  "one_hot classes num_classes =
     map (\<lambda>c. Vec (map (\<lambda>j. if j = c then 1 else 0) [0..<num_classes])) classes"

text \<open>Sequencing of computations that can raise.\<close>

definition bindE :: "py_error + 'a \<Rightarrow> ('a \<Rightarrow> py_error + 'b) \<Rightarrow> py_error + 'b" where
  "bindE m f = (case m of Inl e \<Rightarrow> Inl e | Inr x \<Rightarrow> f x)"

subsection \<open>run\_G and run\_D\<close>

text \<open>
  The loop \<open>for key, val in result.items()\<close> of \<open>run_G\<close> and \<open>run_D\<close>, which merges
  the result of one forward pass into \<open>results\<close>.
\<close>

fun merge_items :: "pydict \<Rightarrow> (string \<times> pyval) list \<Rightarrow> py_error + pydict" where
  "merge_items results [] = Inr results"
| "merge_items results ((key, v) # items) =
     (case results key of
        Some old \<Rightarrow>
          (case v of
             Tensor rows \<Rightarrow>
               (case torch_cat old rows of
                  Inl e \<Rightarrow> Inl e
                | Inr t \<Rightarrow> merge_items (results(key \<mapsto> t)) items)
           | PNone \<Rightarrow> merge_items (results(key \<mapsto> PNone)) items
           | PObj \<Rightarrow> Inl NotImplementedError)
      | None \<Rightarrow> merge_items (results(key \<mapsto> v)) items)"

text \<open>
  The loop \<open>for batch_idx in range(0, batch_size, split_batch_size)\<close>: \<open>chunk_at\<close>
  cuts the inputs of one forward pass, \<open>net\<close> is the forward pass. The state is the list
  of the chunks passed to the network so far, and \<open>results\<close>.
\<close>

fun forward_chunks ::
  "(nat \<Rightarrow> 'c) \<Rightarrow> ('c \<Rightarrow> (string \<times> pyval) list) \<Rightarrow> nat list \<Rightarrow> 'c list \<times> pydict
     \<Rightarrow> py_error + 'c list \<times> pydict" where
  "forward_chunks chunk_at net [] st = Inr st"
| "forward_chunks chunk_at net (batch_idx # idxs) (calls, results) =
     (let chunk = chunk_at batch_idx in
      case merge_items results (net chunk) of
        Inl e \<Rightarrow> Inl e
      | Inr results' \<Rightarrow> forward_chunks chunk_at net idxs (calls @ [chunk], results'))"

text \<open>
  \<open>PiGANLoss.run_G\<close>. \<open>batch_size\<close> is \<open>None\<close> or a number, and
  \<open>effective_batch_size\<close> is \<open>batch_size or runner.batch_size\<close>; \<open>**G_kwargs, **_G_kwargs\<close>
  raises \<open>TypeError\<close> on a repeated keyword. The result is the list of the chunks the
  generator was called on, and the result dictionary. \<open>ddp_sync\<close> only changes how
  gradients are synchronised and has no counterpart here.
\<close>

definition effective_batch_size :: "runner \<Rightarrow> nat option \<Rightarrow> nat" where
  "effective_batch_size rn batch_size_arg =
     (case batch_size_arg of
        None \<Rightarrow> runner.batch_size rn
      | Some b \<Rightarrow> if b = 0 then runner.batch_size rn else b)"

definition run_G ::
  "runner \<Rightarrow> nat option \<Rightarrow> bool \<Rightarrow> nat \<Rightarrow> kwargs
     \<Rightarrow> py_error + (tslice list \<times> tslice list option) list \<times> pydict" where
  "run_G rn batch_size_arg sync split G_kwargs' =
     (let G_kwargs = model_kwargs_train_generator rn;
          batch_size = effective_batch_size rn batch_size_arg
      in if split = 0 then Inl ZeroDivisionError
         else if batch_size mod split \<noteq> 0 then Inl AssertionError
         else
           let split_batch_size = batch_size div split;
               label_dim = generator_label_dim rn;
               latents = map (latent_noise rn) [0..<batch_size];
               labels = (if label_dim > 0
                         then Some (one_hot (map (\<lambda>i. label_noise rn i mod label_dim)
                                               [0..<batch_size]) label_dim)
                         else None)
           in if split_batch_size = 0 then Inl ValueError
              else if \<not> distinct (map fst (G_kwargs @ G_kwargs')) then Inl TypeError
              else forward_chunks
                     (\<lambda>batch_idx.
                        (py_slice latents batch_idx (batch_idx + split_batch_size),
                         map_option
                           (\<lambda>l. py_slice l batch_idx (batch_idx + split_batch_size)) labels))
                     (\<lambda>(latent, label). generator rn latent label (G_kwargs @ G_kwargs'))
                     (py_range batch_size split_batch_size)
                     ([], Map.empty))"

text \<open>\<open>PiGANLoss.run_D\<close>, in the same way.\<close>

definition run_D ::
  "runner \<Rightarrow> tslice list \<Rightarrow> tslice list option \<Rightarrow> bool \<Rightarrow> nat \<Rightarrow> kwargs
     \<Rightarrow> py_error + (tslice list \<times> tslice list option) list \<times> pydict" where
  "run_D rn images labels sync split D_kwargs' =
     (let batch_size = length images
      in if split = 0 then Inl ZeroDivisionError
         else if batch_size mod split \<noteq> 0 then Inl AssertionError
         else
           let split_batch_size = batch_size div split;
               D_kwargs = model_kwargs_train_discriminator rn
           in if split_batch_size = 0 then Inl ValueError
              else if \<not> distinct (map fst (D_kwargs @ D_kwargs')) then Inl TypeError
              else forward_chunks
                     (\<lambda>batch_idx.
                        (py_slice images batch_idx (batch_idx + split_batch_size),
                         map_option
                           (\<lambda>l. py_slice l batch_idx (batch_idx + split_batch_size)) labels))
                     (\<lambda>(image, label). discriminator rn (augment rn image) label
                                          (D_kwargs @ D_kwargs'))
                     (py_range batch_size split_batch_size)
                     ([], Map.empty))"

subsection \<open>Networks with per-sample outputs\<close>










subsection \<open>preprocess\_image\<close>

text \<open>
  Python's \<open>int(x)\<close> of a float truncates towards zero.
\<close>

definition py_int :: "real \<Rightarrow> int" where
  "py_int x = (if 0 \<le> x then \<lfloor>x\<rfloor> else \<lceil>x\<rceil>)"

text \<open>
  \<open>dims4\<close> is the shape of a batch of images as the lengths of all its rows; two
  batches of the same shape have the same \<open>dims4\<close>. A batch has the shape
  \<open>(n, c, h, w)\<close> when it holds \<open>n\<close> images of \<open>c\<close> channels, each of \<open>h\<close> rows of
  \<open>w\<close> pixels.
\<close>

definition dims4 :: "tensor4 \<Rightarrow> nat list list list" where
  "dims4 images = map (map (map length)) images"

definition has_shape :: "tensor4 \<Rightarrow> nat \<times> nat \<times> nat \<times> nat \<Rightarrow> bool" where
  "has_shape images s =
     (case s of (n, c, h, w) \<Rightarrow> dims4 images = replicate n (replicate c (replicate h w)))"

text \<open>
  \<open>F.avg_pool2d(images, kernel_size=2, stride=2, padding=0)\<close>: every output pixel is the
  mean of a block of two by two pixels; a last odd row or column is dropped. torch raises
  \<open>RuntimeError\<close> when the output would have no rows or no columns.
\<close>

fun avg_rows :: "real list \<Rightarrow> real list \<Rightarrow> real list" where
  "avg_rows (a # b # r1) (c # d # r2) = (a + b + c + d) / 4 # avg_rows r1 r2"
| "avg_rows _ _ = []"

fun avg_pool_channel :: "real list list \<Rightarrow> real list list" where
  "avg_pool_channel (r1 # r2 # rows) = avg_rows r1 r2 # avg_pool_channel rows"
| "avg_pool_channel _ = []"

definition avg_pool2d :: "tensor4 \<Rightarrow> py_error + tensor4" where
  "avg_pool2d images =
     (if list_all (list_all (\<lambda>ch. 2 \<le> length ch \<and> list_all (\<lambda>row. 2 \<le> length row) ch)) images
      then Inr (map (map avg_pool_channel) images)
      else Inl RuntimeError)"

text \<open>
  \<open>F.interpolate(images, scale_factor=s, mode='nearest')\<close>: along the height and the
  width, the output has \<open>floor(size * s)\<close> entries, and entry \<open>i\<close> is the entry
  \<open>min(floor(i / s), size - 1)\<close> of the input. torch raises \<open>RuntimeError\<close> when the
  output would have no rows or no columns.
\<close>

definition nearest :: "real \<Rightarrow> 'a list \<Rightarrow> 'a list" where
  "nearest s xs =
     map (\<lambda>i. xs ! min (nat \<lfloor>real i / s\<rfloor>) (length xs - 1))
       [0..<nat \<lfloor>real (length xs) * s\<rfloor>]"

definition F_interpolate :: "tensor4 \<Rightarrow> real \<Rightarrow> py_error + tensor4" where
  "F_interpolate images s =
     (let out = map (map (\<lambda>ch. map (nearest s) (nearest s ch))) images
      in if list_all (list_all (\<lambda>ch. ch \<noteq> [] \<and> list_all (\<lambda>row. row \<noteq> []) ch)) out
         then Inr out
         else Inl RuntimeError)"

text \<open>
  \<open>a * x\<close> for a number \<open>x\<close>, and \<open>a + b\<close> for two batches: batches of different shapes
  that occur in \<open>preprocess_image\<close> cannot be broadcast, and torch raises
  \<open>RuntimeError\<close>.
\<close>

definition mul4 :: "tensor4 \<Rightarrow> real \<Rightarrow> tensor4" where
  "mul4 a x = map (map (map (map (\<lambda>v. v * x)))) a"

definition add4 :: "tensor4 \<Rightarrow> tensor4 \<Rightarrow> py_error + tensor4" where
  "add4 a b =
     (if dims4 a = dims4 b
      then Inr (map2 (map2 (map2 (map2 (+)))) a b)
      else Inl RuntimeError)"

text \<open>The loop \<open>for _ in range(int(lod))\<close>.\<close>

fun downsample :: "nat \<Rightarrow> tensor4 \<Rightarrow> py_error + tensor4" where
  "downsample 0 images = Inr images"
| "downsample (Suc k) images = bindE (avg_pool2d images) (downsample k)"

text \<open>
  \<open>PiGANLoss.preprocess_image\<close>. \<open>range(int(lod))\<close> is empty for a negative
  \<open>int(lod)\<close>, and \<open>2**int(lod)\<close> is then a fraction.
\<close>

definition preprocess_image :: "tensor4 \<Rightarrow> real \<Rightarrow> py_error + tensor4" where
  "preprocess_image images lod' =
     bindE (downsample (nat (py_int lod')) images) (\<lambda>images.
     bindE (if lod' \<noteq> real_of_int (py_int lod')
            then bindE (avg_pool2d images) (\<lambda>downsampled_images.
                 bindE (F_interpolate downsampled_images 2) (\<lambda>upsampled_images.
                   let alpha = lod' - real_of_int (py_int lod')
                   in add4 (mul4 images (1 - alpha)) (mul4 upsampled_images alpha)))
            else Inr images) (\<lambda>images.
     if py_int lod' = 0 then Inr images
     else F_interpolate images (2 powi py_int lod')))"

text \<open>
  The level-of-detail blending as the specification words it: downsample \<open>int(lod)\<close>
  times by average pooling; if \<open>lod\<close> is not an integer, blend with the copy that is
  downsampled once more and upsampled by two, with the weight
  \<open>alpha = lod - int(lod)\<close>; upsample by \<open>2**int(lod)\<close>.
\<close>

definition lod_blend :: "tensor4 \<Rightarrow> real \<Rightarrow> py_error + tensor4" where
  "lod_blend images alpha =
     bindE (avg_pool2d images) (\<lambda>down.
     bindE (F_interpolate down 2) (\<lambda>up.
       add4 (mul4 images (1 - alpha)) (mul4 up alpha)))"

definition preprocess_image_spec :: "tensor4 \<Rightarrow> real \<Rightarrow> py_error + tensor4" where
  "preprocess_image_spec images lod' =
     (let k = nat (py_int lod') in
      bindE (downsample k images) (\<lambda>x.
      bindE (if lod' = real_of_int (py_int lod') then Inr x
             else lod_blend x (lod' - real_of_int (py_int lod'))) (\<lambda>y.
      F_interpolate y (2 ^ k))))"

subsection \<open>The loss object and its configuration\<close>

text \<open>
  The attributes of \<open>PiGANLoss\<close> and its \<open>__init__\<close>, which reads them from
  \<open>d_loss_kwargs\<close> with \<open>dict.get\<close>. The statistics that \<open>__init__\<close> registers with the
  runner only serve logging and have no counterpart here.
\<close>

record PiGANLoss =
  d_loss_kwargs :: kwargs
  g_loss_kwargs :: kwargs
  r1_gamma :: real
  r2_gamma :: real
  latent_gamma :: real
  camera_gamma :: real
  batch_split :: nat

definition dict_get :: "kwargs \<Rightarrow> string \<Rightarrow> real \<Rightarrow> real" where
  "dict_get d key dflt = (case map_of d key of Some v \<Rightarrow> v | None \<Rightarrow> dflt)"

definition PiGANLoss_init :: "kwargs option \<Rightarrow> kwargs option \<Rightarrow> PiGANLoss" where
  "PiGANLoss_init d_loss_kwargs_arg g_loss_kwargs_arg =
     (let d_kwargs = (case d_loss_kwargs_arg of None \<Rightarrow> [] | Some d \<Rightarrow> d);
          g_kwargs = (case g_loss_kwargs_arg of None \<Rightarrow> [] | Some g \<Rightarrow> g)
      in \<lparr>d_loss_kwargs = d_kwargs,
          g_loss_kwargs = g_kwargs,
          r1_gamma = dict_get d_kwargs ''r1_gamma'' 10,
          r2_gamma = dict_get d_kwargs ''r2_gamma'' 0,
          latent_gamma = dict_get d_kwargs ''latent_gamma'' 0,
          camera_gamma = dict_get d_kwargs ''camera_gamma'' 15,
          batch_split = nat \<lfloor>dict_get d_kwargs ''batch_split'' 2\<rfloor>\<rparr>)"

text \<open>
  configs/stylesdf\_config.py: the keyword arguments of the two losses that
  \<open>StyleSDFConfig.parse_options\<close> stores in \<open>config.loss\<close>. \<open>r1_gamma\<close> is the command
  line option; \<open>full_pipeline=False\<close> is the number 0.
\<close>

definition parse_options_d_loss_kwargs :: "real \<Rightarrow> kwargs" where
  "parse_options_d_loss_kwargs r1_gamma_option =
     [(''r1_gamma'', r1_gamma_option), (''latent_gamma'', 0), (''camera_gamma'', 15),
      (''batch_split'', 2), (''fade_steps'', 10000), (''full_pipeline'', 0)]"

definition parse_options_g_loss_kwargs :: kwargs where
  "parse_options_g_loss_kwargs =
     [(''top_k_interval'', 2000), (''top_v'', 6 / 10), (''eikonal_lambda'', 1 / 10),
      (''min_surf_lambda'', 5 / 100)]"

subsection \<open>compute\_grad\_penalty\<close>

text \<open>
  \<open>torch.autograd.grad\<close> is a parameter of the model. In Python \<open>scores\<close> is a tensor
  that remembers how it was computed from \<open>images\<close>; here it is the function from the
  images to the scores. \<open>autograd_grad f x\<close> stands for
  \<open>torch.autograd.grad(outputs=[f(x)], inputs=[x])[0]\<close>.
\<close>

type_synonym autograd = "(tensor4 \<Rightarrow> real) \<Rightarrow> tensor4 \<Rightarrow> tensor4"

definition div4 :: "tensor4 \<Rightarrow> real \<Rightarrow> tensor4" where
  "div4 a x = map (map (map (map (\<lambda>v. v / x)))) a"

text \<open>\<open>t.square().sum((1, 2, 3))\<close>: for every sample, the sum of the squares of its entries.\<close>

definition square_sum123 :: "tensor4 \<Rightarrow> real list" where
  "square_sum123 t =
     map (\<lambda>img. sum_list (map (\<lambda>ch. sum_list (map (\<lambda>row. sum_list (map (\<lambda>v. v * v) row)) ch)) img)) t"

definition compute_grad_penalty ::
  "autograd \<Rightarrow> tensor4 \<Rightarrow> (tensor4 \<Rightarrow> real list) \<Rightarrow> GradScaler \<Rightarrow> real list" where
  "compute_grad_penalty autograd_grad images scores scaler =
     (let scaled_scores = (\<lambda>x. map (scale scaler) (scores x));
          image_grad = autograd_grad (\<lambda>x. sum_list (scaled_scores x)) images;
          image_grad = (if is_enabled scaler
                        then div4 image_grad (get_scale scaler)
                        else image_grad)
      in square_sum123 image_grad)"

text \<open>
  What \<open>torch.autograd.grad\<close> computes: \<open>g\<close> is the gradient of \<open>f\<close> at the batch \<open>x\<close>
  when it has the shape of \<open>x\<close> and each of its entries is the partial derivative of \<open>f\<close>
  in the entry of \<open>x\<close> at the same position. \<open>upd4 x n c i j t\<close> is \<open>x\<close> with the entry
  at the position \<open>(n, c, i, j)\<close> replaced by \<open>t\<close>.
\<close>

definition upd4 :: "tensor4 \<Rightarrow> nat \<Rightarrow> nat \<Rightarrow> nat \<Rightarrow> nat \<Rightarrow> real \<Rightarrow> tensor4" where
  "upd4 x n c i j t = x[n := (x ! n)[c := (x ! n ! c)[i := (x ! n ! c ! i)[j := t]]]]"

definition is_gradient :: "(tensor4 \<Rightarrow> real) \<Rightarrow> tensor4 \<Rightarrow> tensor4 \<Rightarrow> bool" where
  "is_gradient f x g \<longleftrightarrow>
     dims4 g = dims4 x \<and>
     (\<forall>n < length x. \<forall>c < length (x ! n). \<forall>i < length (x ! n ! c).
        \<forall>j < length (x ! n ! c ! i).
          ((\<lambda>t. f (upd4 x n c i j t)) has_real_derivative g ! n ! c ! i ! j)
            (at (x ! n ! c ! i ! j)))"

text \<open>The Euclidean norm of an image, over its channels, rows and columns.\<close>

definition l2_norm :: "image \<Rightarrow> real" where
  "l2_norm img = sqrt (sum_list (map (\<lambda>ch. sum_list (map (\<lambda>row. sum_list (map (\<lambda>v. v * v) row)) ch)) img))"

text \<open>
  A discriminator with one pixel of input, for concrete runs: the score is twice the
  pixel. \<open>affine_autograd\<close> returns the gradient of an affine function of one pixel.
\<close>

definition pixel_scores :: "tensor4 \<Rightarrow> real list" where
  "pixel_scores x = [2 * x ! 0 ! 0 ! 0 ! 0]"

definition affine_autograd :: autograd where
  "affine_autograd f x = [[[[f [[[[1]]]] - f [[[[0]]]]]]]]"

subsection \<open>The top-k selection of g\_loss\<close>

text \<open>
  Reading a keyword dictionary: \<open>d[key]\<close> raises \<open>KeyError\<close> for a missing key, and
  \<open>key in d\<close> tests for it.
\<close>

definition getkw :: "kwargs \<Rightarrow> string \<Rightarrow> py_error + real" where
  "getkw d key = (case map_of d key of None \<Rightarrow> Inl KeyError | Some v \<Rightarrow> Inr v)"

definition key_in :: "string \<Rightarrow> kwargs \<Rightarrow> bool" where
  "key_in key d = (map_of d key \<noteq> None)"

text \<open>
  \<open>torch.topk(scores, k, dim=0).values\<close>: the \<open>k\<close> largest scores, largest first;
  \<open>RuntimeError\<close> when \<open>k\<close> is out of range.
\<close>

definition torch_topk :: "real list \<Rightarrow> int \<Rightarrow> py_error + real list" where
  "torch_topk scores k =
     (if k < 0 \<or> int (length scores) < k then Inl RuntimeError
      else Inr (take (nat k) (rev (sort scores))))"

text \<open>
  The computation of \<open>topk_percent\<close> and of \<open>topk_num\<close> at the head of
  \<open>PiGANLoss.g_loss\<close>, as functions of their own.
\<close>

definition topk_percent :: "PiGANLoss \<Rightarrow> runner \<Rightarrow> py_error + real" where
  "topk_percent self rn =
     (if key_in ''topk_interval'' (g_loss_kwargs self) \<and> key_in ''topk_v'' (g_loss_kwargs self)
      then bindE (getkw (g_loss_kwargs self) ''topk_interval'') (\<lambda>topk_interval.
           if topk_interval = 0 then Inl ZeroDivisionError else
           bindE (getkw (g_loss_kwargs self) ''topk_v'') (\<lambda>topk_v.
           Inr (max ((99 / 100) powr (real_of_int (iter rn) / topk_interval)) topk_v)))
      else Inr 1)"

definition topk_num :: "PiGANLoss \<Rightarrow> runner \<Rightarrow> py_error + int" where
  "topk_num self rn =
     bindE (topk_percent self rn) (\<lambda>p. Inr (py_int (p * real (runner.batch_size rn))))"

subsection \<open>A small runner for concrete runs\<close>

text \<open>
  A generator that renders every latent code to an image of one pixel and has no labels,
  a discriminator that scores every image with 0, and a runner with a batch of four.
\<close>

definition example_generator ::
  "tslice list \<Rightarrow> tslice list option \<Rightarrow> kwargs \<Rightarrow> (string \<times> pyval) list" where
  "example_generator latent label kw =
     [(''image'', Tensor (map (\<lambda>z. Img [[[0]]]) latent)),
      (''label'', PNone),
      (''latent'', Tensor latent),
      (''camera'', Tensor (map (\<lambda>z. Vec [0, 0]) latent))]"

definition example_discriminator ::
  "tslice list \<Rightarrow> tslice list option \<Rightarrow> kwargs \<Rightarrow> (string \<times> pyval) list" where
  "example_discriminator images label kw =
     [(''score'', Tensor (map (\<lambda>z. Sc 0) images)),
      (''latent'', Tensor (map (\<lambda>z. Vec [0]) images)),
      (''camera'', Tensor (map (\<lambda>z. Vec [0, 0]) images))]"

definition example_runner :: runner where
  "example_runner =
     \<lparr>runner.batch_size = 4, iter = 1, lod = 0, enable_amp = False,
      amp_scaler = \<lparr>is_enabled = False, scale_factor = 1\<rparr>,
      generator_label_dim = 0,
      generator = example_generator,
      discriminator = example_discriminator,
      model_kwargs_train_generator = [],
      model_kwargs_train_discriminator = [],
      augment = (\<lambda>x. x),
      latent_noise = (\<lambda>i. Vec [real i]),
      label_noise = (\<lambda>i. 0)\<rparr>"

text \<open>The loss object that the configuration of StyleSDF builds.\<close>

definition stylesdf_loss :: "real \<Rightarrow> PiGANLoss" where
  "stylesdf_loss r1_gamma_option =
     PiGANLoss_init (Some (parse_options_d_loss_kwargs r1_gamma_option))
       (Some parse_options_g_loss_kwargs)"

subsection \<open>Tensors of any shape\<close>

text \<open>
  For the arithmetic of \<open>d_loss\<close> a tensor is its shape and its entries in row-major
  order. \<open>to_tensor\<close> reads a tensor of a result dictionary in this way: the first
  dimension is the number of its slices and the other dimensions are those of its first
  slice; a tensor without slices has the shape \<open>(0,)\<close>.
\<close>

type_synonym ndtensor = "nat list \<times> real list"

fun slice_shape :: "tslice \<Rightarrow> nat list" where
  "slice_shape (Sc v) = []"
| "slice_shape (Vec v) = [length v]"
| "slice_shape (Img i) =
     [length i,
      (case i of [] \<Rightarrow> 0 | c # cs \<Rightarrow> length c),
      (case concat i of [] \<Rightarrow> 0 | r # rs \<Rightarrow> length r)]"

fun slice_entries :: "tslice \<Rightarrow> real list" where
  "slice_entries (Sc v) = [v]"
| "slice_entries (Vec v) = v"
| "slice_entries (Img i) = concat (concat i)"

definition to_tensor :: "tslice list \<Rightarrow> ndtensor" where
  "to_tensor rows =
     (length rows # (case rows of [] \<Rightarrow> [] | r # rs \<Rightarrow> slice_shape r),
      concat (map slice_entries rows))"

definition tensor_map :: "(real \<Rightarrow> real) \<Rightarrow> ndtensor \<Rightarrow> ndtensor" where
  "tensor_map f t = (fst t, map f (snd t))"

text \<open>
  Broadcasting. Two shapes are aligned at their last dimensions; two aligned dimensions
  must be equal or one of them must be 1, and a missing dimension counts as 1.
  \<open>broadcast_rev\<close> works on the reversed shapes; without a common shape torch raises
  \<open>RuntimeError\<close>.
\<close>

fun broadcast_rev :: "nat list \<Rightarrow> nat list \<Rightarrow> nat list option" where
  "broadcast_rev [] ys = Some ys"
| "broadcast_rev (x # xs) [] = Some (x # xs)"
| "broadcast_rev (x # xs) (y # ys) =
     (if x = y \<or> y = 1 then map_option ((#) x) (broadcast_rev xs ys)
      else if x = 1 then map_option ((#) y) (broadcast_rev xs ys)
      else None)"

definition broadcast_shapes :: "nat list \<Rightarrow> nat list \<Rightarrow> nat list option" where
  "broadcast_shapes a b = map_option rev (broadcast_rev (rev a) (rev b))"

text \<open>
  \<open>expand s e t\<close> are the entries of the tensor of shape \<open>s\<close> and entries \<open>e\<close> expanded
  to the shape \<open>t\<close>, where \<open>t\<close> is a common shape of \<open>s\<close> and another shape: along a
  dimension that \<open>s\<close> lacks, or in which \<open>s\<close> has the size 1 and \<open>t\<close> has not, the tensor
  is repeated; along another dimension each of its slices is expanded.
\<close>

fun expand :: "nat list \<Rightarrow> real list \<Rightarrow> nat list \<Rightarrow> real list" where
  "expand s e [] = e"
| "expand s e (d # t) =
     (if length s \<le> length t then concat (replicate d (expand s e t))
      else if hd s = d
      then concat (map (\<lambda>k. expand (tl s) (py_slice e (k * prod_list (tl s))
                                              (k * prod_list (tl s) + prod_list (tl s))) t)
                     [0..<d])
      else concat (replicate d (expand (tl s) e t)))"

text \<open>\<open>a + b\<close> for two tensors.\<close>

definition tensor_add :: "ndtensor \<Rightarrow> ndtensor \<Rightarrow> py_error + ndtensor" where
  "tensor_add a b =
     (case broadcast_shapes (fst a) (fst b) of
        None \<Rightarrow> Inl RuntimeError
      | Some s \<Rightarrow> Inr (s, map2 (+) (expand (fst a) (snd a) s) (expand (fst b) (snd b) s)))"

subsection \<open>d\_loss\<close>

text \<open>
  Reading a result dictionary: \<open>d[key]\<close> raises \<open>KeyError\<close> for a missing key.
  A value that is no tensor raises \<open>TypeError\<close> as the operand of \<open>-\<close> or the argument
  of \<open>F.softplus\<close>, and \<open>AttributeError\<close> where its \<open>shape\<close> or \<open>size()\<close> is read.
\<close>

definition getitem :: "pydict \<Rightarrow> string \<Rightarrow> py_error + pyval" where
  "getitem d key = (case d key of None \<Rightarrow> Inl KeyError | Some v \<Rightarrow> Inr v)"

definition as_operand :: "pyval \<Rightarrow> py_error + ndtensor" where
  "as_operand v = (case v of Tensor rows \<Rightarrow> Inr (to_tensor rows) | _ \<Rightarrow> Inl TypeError)"

definition as_rows :: "pyval \<Rightarrow> py_error + tslice list" where
  "as_rows v = (case v of Tensor rows \<Rightarrow> Inr rows | _ \<Rightarrow> Inl AttributeError)"

text \<open>
  The labels that \<open>run_D\<close> is given with the images \<open>rows\<close>: \<open>None\<close> or a tensor. On an
  object of another type \<open>run_D\<close> raises \<open>TypeError\<close> when it takes the slice
  \<open>labels[...]\<close> for the first chunk, which it does not reach for an empty batch, where
  \<open>range\<close> raises \<open>ValueError\<close>.
\<close>

definition as_labels :: "tslice list \<Rightarrow> pyval \<Rightarrow> py_error + tslice list option" where
  "as_labels rows v =
     (case v of
        Tensor l \<Rightarrow> Inr (Some l)
      | PNone \<Rightarrow> Inr None
      | PObj \<Rightarrow> if rows = [] then Inl ValueError else Inl TypeError)"

text \<open>
  The images of which \<open>compute_grad_penalty\<close> takes \<open>sum((1, 2, 3))\<close>: on a tensor
  of fewer dimensions torch raises \<open>IndexError\<close>.
\<close>

fun slice_image :: "tslice \<Rightarrow> image option" where
  "slice_image (Img i) = Some i"
| "slice_image (Sc v) = None"
| "slice_image (Vec v) = None"

definition as_images :: "tslice list \<Rightarrow> py_error + tensor4" where
  "as_images rows =
     (if list_all (\<lambda>r. slice_image r \<noteq> None) rows
      then Inr (map (\<lambda>r. the (slice_image r)) rows)
      else Inl IndexError)"

text \<open>
  \<open>F.softplus\<close> with its default parameters: above the threshold 20 it is the identity.
\<close>

definition F_softplus :: "real \<Rightarrow> real" where
  "F_softplus x = (if x > 20 then x else ln (1 + exp x))"

text \<open>
  \<open>F.mse_loss(input, target)\<close>: both tensors are broadcast to their common shape
  (\<open>RuntimeError\<close> without one), and the result is the mean of the squared differences
  of their entries. The result \<open>None\<close> stands for \<open>nan\<close>, the mean of no entries.
\<close>

definition mse_loss :: "pyval \<Rightarrow> pyval \<Rightarrow> py_error + real option" where
  "mse_loss input target =
     bindE (as_rows target) (\<lambda>target_rows.
     bindE (as_rows input) (\<lambda>input_rows.
       let x = to_tensor input_rows; y = to_tensor target_rows in
       case broadcast_shapes (fst x) (fst y) of
         None \<Rightarrow> Inl RuntimeError
       | Some s \<Rightarrow>
           let d = map2 (\<lambda>u v. (u - v)\<^sup>2) (expand (fst x) (snd x) s) (expand (fst y) (snd y) s)
           in Inr (if d = [] then None else Some (sum_list d / real (length d)))))"

text \<open>
  \<open>(t + id_penalty).mean()\<close> for a tensor \<open>t\<close> and the number \<open>id_penalty\<close>, which is added
  to every entry; the mean is \<open>nan\<close> when \<open>id_penalty\<close> is or when \<open>t\<close> has no entries.
\<close>

definition mean_plus :: "ndtensor \<Rightarrow> real option \<Rightarrow> py_error + real" where
  "mean_plus t id_penalty =
     (case id_penalty of
        None \<Rightarrow> Inl NotANumber
      | Some p \<Rightarrow>
          if snd t = [] then Inl NotANumber
          else Inr (sum_list (map (\<lambda>v. v + p) (snd t)) / real (length (snd t))))"

text \<open>
  The scores of the discriminator as a function of the images, which is what
  \<open>compute_grad_penalty\<close> differentiates: the entries of the \<open>score\<close> tensor of \<open>run_D\<close>
  on the images.
\<close>

definition score_graph ::
  "runner \<Rightarrow> tslice list option \<Rightarrow> bool \<Rightarrow> kwargs \<Rightarrow> tensor4 \<Rightarrow> real list" where
  "score_graph rn labels sync D_kwargs' x =
     (case bindE (run_D rn (map Img x) labels sync 1 D_kwargs') (\<lambda>(calls, results).
           bindE (getitem results ''score'') as_operand) of
        Inr s \<Rightarrow> snd s
      | Inl e \<Rightarrow> [])"

text \<open>The batch \<open>data\<close> of \<open>d_loss\<close>: \<open>data['image']\<close> and \<open>data.get('label', None)\<close>.\<close>

record batch_data =
  data_image :: tensor4
  data_label :: "tslice list option"

text \<open>
  \<open>PiGANLoss.d_loss\<close>. \<open>autocast\<close> changes the precision only, and the updates of
  \<open>running_stats\<close> and of the augmentation's \<open>prob_tracker\<close> only record values; they
  have no counterpart here. A gradient penalty is a tensor of one dimension.
\<close>

definition d_loss ::
  "autograd \<Rightarrow> PiGANLoss \<Rightarrow> runner \<Rightarrow> batch_data \<Rightarrow> bool \<Rightarrow> py_error + real" where
  "d_loss autograd_grad self rn data sync =
     (let noise_std = max 0 (1 - real_of_int (iter rn) / 5000) in
      bindE (getkw (d_loss_kwargs self) ''fade_steps'') (\<lambda>fade_steps.
      if fade_steps = 0 then Inl ZeroDivisionError else
      let alpha = min 1 ((real_of_int (iter rn) - 1) / fade_steps);
          G_kwargs' = [(''noise_std'', noise_std)];
          D_kwargs' = [(''alpha'', alpha)] in
      bindE (preprocess_image (data_image data) (lod rn)) (\<lambda>real_images.
      let real_labels = data_label data in
      bindE (run_D rn (map Img real_images) real_labels sync 1 D_kwargs') (\<lambda>(calls, real_results).
      bindE (getitem real_results ''score'') (\<lambda>real_score.
      bindE (as_operand real_score) (\<lambda>real_scores.
      let d_real_loss = tensor_map (\<lambda>s. scale (amp_scaler rn) (F_softplus (- s))) real_scores in
      bindE (run_G rn None False (batch_split self) G_kwargs') (\<lambda>(calls, fake_results).
      bindE (getitem fake_results ''image'') (\<lambda>fake_image.
      bindE (getitem fake_results ''label'') (\<lambda>fake_label.
      bindE (as_rows fake_image) (\<lambda>fake_rows.
      bindE (as_labels fake_rows fake_label) (\<lambda>fake_labels.
      bindE (run_D rn fake_rows fake_labels sync 1 D_kwargs') (\<lambda>(calls, fake_pred_results).
      bindE (getitem fake_pred_results ''score'') (\<lambda>fake_score.
      bindE (as_operand fake_score) (\<lambda>fake_scores.
      let d_fake_loss = tensor_map (\<lambda>s. scale (amp_scaler rn) (F_softplus s)) fake_scores in
      bindE (if r1_gamma self > 0
             then let penalty = compute_grad_penalty autograd_grad real_images
                                  (score_graph rn real_labels sync D_kwargs') (amp_scaler rn)
                  in Inr ([length penalty], map (scale (amp_scaler rn)) penalty)
             else Inr (tensor_map (\<lambda>v. 0) d_real_loss)) (\<lambda>r1_penalty.
      bindE (if r2_gamma self > 0
             then bindE (as_images fake_rows) (\<lambda>fake_images.
                    let penalty = compute_grad_penalty autograd_grad fake_images
                                    (score_graph rn fake_labels sync D_kwargs') (amp_scaler rn)
                    in Inr ([length penalty], map (scale (amp_scaler rn)) penalty))
             else Inr (tensor_map (\<lambda>v. 0) d_fake_loss)) (\<lambda>r2_penalty.
      bindE (getitem fake_pred_results ''latent'') (\<lambda>pred_latent.
      bindE (getitem fake_results ''latent'') (\<lambda>fake_latent.
      bindE (mse_loss pred_latent fake_latent) (\<lambda>latent_penalty.
      bindE (getitem fake_pred_results ''camera'') (\<lambda>pred_camera.
      bindE (getitem fake_results ''camera'') (\<lambda>fake_camera.
      bindE (mse_loss pred_camera fake_camera) (\<lambda>camera_penalty.
      let id_penalty =
            (case (camera_penalty, latent_penalty) of
               (Some c, Some l) \<Rightarrow>
                 Some (scale (amp_scaler rn) (c * camera_gamma self + l * latent_gamma self))
             | _ \<Rightarrow> None) in
      bindE (tensor_add d_real_loss d_fake_loss) (\<lambda>t1.
      bindE (tensor_add t1 (tensor_map (\<lambda>p. p * (r1_gamma self * (1 / 2))) r1_penalty)) (\<lambda>t2.
      bindE (tensor_add t2 (tensor_map (\<lambda>p. p * (r2_gamma self * (1 / 2))) r2_penalty)) (\<lambda>t3.
      mean_plus t3 id_penalty)))))))))))))))))))))))))"

text \<open>
  The mean squared error of two lists of entries, and the loss of the specification for
  a batch of \<open>n\<close> samples: the mean over the batch of the two softplus terms, the two
  weighted gradient penalties and the identity penalty.
\<close>

definition MSE :: "real list \<Rightarrow> real list \<Rightarrow> real" where
  "MSE xs ys = sum_list (map2 (\<lambda>u v. (u - v)\<^sup>2) xs ys) / real (length xs)"

definition d_loss_spec ::
  "PiGANLoss \<Rightarrow> nat \<Rightarrow> real list \<Rightarrow> real list \<Rightarrow> real list \<Rightarrow> real list \<Rightarrow> real \<Rightarrow> real" where
  "d_loss_spec self n real_score fake_score r1_penalty r2_penalty id_penalty =
     sum_list (map (\<lambda>i. F_softplus (- (real_score ! i)) + F_softplus (fake_score ! i)
                      + r1_gamma self / 2 * (r1_penalty ! i)
                      + r2_gamma self / 2 * (r2_penalty ! i) + id_penalty) [0..<n]) / real n"



text \<open>
  Two tensors of a result dictionary have the same shape when their shapes are equal,
  each has as many entries as its shape says, and they have an entry.
\<close>

definition same_shape :: "tslice list \<Rightarrow> tslice list \<Rightarrow> bool" where
  "same_shape a b \<longleftrightarrow>
     fst (to_tensor a) = fst (to_tensor b) \<and>
     length (snd (to_tensor a)) = prod_list (fst (to_tensor a)) \<and>
     length (snd (to_tensor b)) = prod_list (fst (to_tensor b)) \<and>
     snd (to_tensor a) \<noteq> []"

subsection \<open>A run of d\_loss on images of one pixel\<close>

text \<open>
  A run of \<open>d_loss\<close> on a batch of two images of one pixel: the generator renders a latent
  code to the pixel that is the sum of its entries, the discriminator scores an image with
  twice the sum of its pixels, and \<open>pixel_autograd\<close> is the gradient of a function that is
  affine in every pixel of a batch of images of one pixel.
\<close>

definition pixel_generator ::
  "tslice list \<Rightarrow> tslice list option \<Rightarrow> kwargs \<Rightarrow> (string \<times> pyval) list" where
  "pixel_generator latent label kw =
     [(''image'', Tensor (map (\<lambda>z. Img [[[sum_list (slice_entries z)]]]) latent)),
      (''label'', PNone),
      (''latent'', Tensor latent),
      (''camera'', Tensor (map (\<lambda>z. Vec [0, 1]) latent))]"

definition pixel_discriminator ::
  "tslice list \<Rightarrow> tslice list option \<Rightarrow> kwargs \<Rightarrow> (string \<times> pyval) list" where
  "pixel_discriminator images label kw =
     [(''score'', Tensor (map (\<lambda>r. Sc (2 * sum_list (slice_entries r))) images)),
      (''latent'', Tensor (map (\<lambda>r. Vec [0]) images)),
      (''camera'', Tensor (map (\<lambda>r. Vec [0, 0]) images))]"

definition pixel_autograd :: autograd where
  "pixel_autograd f x =
     map (\<lambda>n. [[[f (upd4 x n 0 0 0 (x ! n ! 0 ! 0 ! 0 + 1)) - f x]]]) [0..<length x]"

definition pixel_runner :: runner where
  "pixel_runner =
     \<lparr>runner.batch_size = 2, iter = 1, lod = 0, enable_amp = False,
      amp_scaler = \<lparr>is_enabled = False, scale_factor = 1\<rparr>,
      generator_label_dim = 0,
      generator = pixel_generator,
      discriminator = pixel_discriminator,
      model_kwargs_train_generator = [],
      model_kwargs_train_discriminator = [],
      augment = (\<lambda>x. x),
      latent_noise = (\<lambda>i. Vec [real i]),
      label_noise = (\<lambda>i. 0)\<rparr>"

definition pixel_loss :: PiGANLoss where
  "pixel_loss =
     PiGANLoss_init (Some [(''fade_steps'', 10000), (''r2_gamma'', 1), (''latent_gamma'', 2)])
       None"

definition pixel_data :: batch_data where
  "pixel_data = \<lparr>data_image = [[[[3]]], [[[1]]]], data_label = None\<rparr>"

section \<open>metrics/kid.py and metrics/gan\_snapshot\_multiview.py: the metric objects\<close>

subsection \<open>Arrays, files and the metric objects\<close>

text \<open>
  A numpy array or a tensor of a metric is its shape and its entries in row-major order.
  \<open>len(a)\<close> is the first dimension, and \<open>a[:k]\<close> keeps the first \<open>k\<close> slices along the
  first dimension (all but the last \<open>-k\<close> for a negative \<open>k\<close>).
\<close>

record ndarray =
  shape :: "nat list"
  entries :: "real list"

definition array_len :: "ndarray \<Rightarrow> py_error + nat" where
  "array_len a = (case shape a of [] \<Rightarrow> Inl TypeError | n # rest \<Rightarrow> Inr n)"

definition first_rows :: "ndarray \<Rightarrow> int \<Rightarrow> py_error + ndarray" where
  "first_rows a k =
     (case shape a of
        [] \<Rightarrow> Inl IndexError
      | n # rest \<Rightarrow>
          let m = (if 0 \<le> k then min (nat k) n else n - nat (- k))
          in Inr \<lparr>shape = m # rest, entries = take (m * prod_list rest) (entries a)\<rparr>)"

text \<open>
  The attributes and methods of \<open>BaseGANMetric\<close> that the two metric classes use. The
  class itself is not part of the sources at hand, so its methods are fields of the
  record: \<open>get_replica_num\<close>, \<open>gather_batch_results\<close>, \<open>append_batch_results\<close> (which
  returns the list it extends) and \<open>gather_all_results\<close>. \<open>latent_codes_file\<close> and
  \<open>labels_file\<close> are \<open>np.load(self.latent_file)[self.replica_indices]\<close> and its
  counterpart for labels; \<open>randn_g1 start n\<close> are the \<open>n\<close> rows that \<open>torch.randn\<close>
  draws from the generator \<open>g1\<close> in the iteration that begins at \<open>start\<close>, and
  \<open>randint_g2 start n\<close> the classes that \<open>torch.randint\<close> draws from \<open>g2\<close>.
  \<open>self.sync()\<close> and the logger have no counterpart here.
\<close>

record BaseGANMetric =
  name :: string
  batch_size :: nat
  latent_num :: int
  label_dim :: nat
  is_chief :: bool
  world_size :: nat
  random_latents :: bool
  random_labels :: bool
  replica_latent_num :: nat
  get_replica_num :: "nat \<Rightarrow> nat"
  gather_batch_results :: "ndarray \<Rightarrow> ndarray"
  append_batch_results :: "ndarray \<Rightarrow> ndarray list \<Rightarrow> ndarray list"
  gather_all_results :: "ndarray list \<Rightarrow> ndarray"
  latent_codes_file :: "tslice list"
  labels_file :: "tslice list"
  randn_g1 :: "nat \<Rightarrow> nat \<Rightarrow> tslice list"
  randint_g2 :: "nat \<Rightarrow> nat \<Rightarrow> nat list"

record KIDMetric = BaseGANMetric +
  real_num :: int
  fake_num :: int
  num_subsets :: nat
  max_subset_size :: nat
  inception_model :: "ndarray \<Rightarrow> ndarray"

record GANSnapshotMultiView = BaseGANMetric +
  min_val :: real
  max_val :: real
  radius :: real
  azimuthal_start :: real
  azimuthal_end :: real

text \<open>
  The generator is a function of its training mode, the latent codes, the labels, its
  keyword arguments and the camera (\<open>cam2world_matrix\<close>, when it is given), to the
  \<open>image\<close> entry of its result. \<open>G.eval()\<close> and \<open>G.train()\<close> set the training mode.
\<close>

record camera_args =
  cam_batch_size :: nat
  radius_fix :: real
  polar_fix :: real
  azimuthal_fix :: real

type_synonym cam2world = "real list list list"

type_synonym G_forward =
  "bool \<Rightarrow> tslice list \<Rightarrow> tslice list \<Rightarrow> kwargs \<Rightarrow> cam2world option \<Rightarrow> ndarray"

definition FEATURE_DIM :: nat where
  "FEATURE_DIM = 2048"

subsection \<open>KIDMetric\<close>

text \<open>
  \<open>KIDMetric._is_better_than\<close>. The result is Python's \<open>None\<close> (\<open>None\<close>) or a
  boolean (\<open>Some b\<close>); \<open>ref\<close> is \<open>None\<close> or a number.
\<close>

definition is_better_than ::
  "'a KIDMetric_scheme \<Rightarrow> string \<Rightarrow> real \<Rightarrow> real option \<Rightarrow> bool option" where
  "is_better_than self metric_name new ref =
     (if metric_name = name self
      then Some (case ref of None \<Rightarrow> True | Some r \<Rightarrow> new < r)
      else None)"










text \<open>
  The latent codes and the labels of one batch of \<open>extract_fake_features\<close>, and its
  loop \<open>for start in range(0, self.replica_latent_num, batch_size)\<close>. The state is
  \<open>all_features\<close> and the list of the calls of the generator: its training mode, the
  codes and the labels.
\<close>

definition batch_labels_of :: "'a BaseGANMetric_scheme \<Rightarrow> nat \<Rightarrow> nat \<Rightarrow> tslice list" where
  "batch_labels_of self start end =
     (if random_labels self
      then if label_dim self = 0 then replicate (end - start) (Vec [])
           else one_hot (randint_g2 self start (end - start)) (label_dim self)
      else py_slice (labels_file self) start end)"

fun fake_features_loop ::
  "'a KIDMetric_scheme \<Rightarrow> G_forward \<Rightarrow> kwargs \<Rightarrow> nat list
     \<Rightarrow> ndarray list \<times> (bool \<times> tslice list \<times> tslice list) list
     \<Rightarrow> ndarray list \<times> (bool \<times> tslice list \<times> tslice list) list" where
  "fake_features_loop self G G_kwargs [] st = st"
| "fake_features_loop self G G_kwargs (start # rest) (all_features, calls) =
     (let end = min (start + batch_size self) (replica_latent_num self);
          batch_codes = (if random_latents self then randn_g1 self start (end - start)
                         else py_slice (latent_codes_file self) start end);
          batch_labels = batch_labels_of self start end;
          batch_images = G False batch_codes batch_labels G_kwargs None;
          batch_features = inception_model self batch_images;
          gathered_features = gather_batch_results self batch_features
      in fake_features_loop self G G_kwargs rest
           (append_batch_results self gathered_features all_features,
            calls @ [(False, batch_codes, batch_labels)]))"

text \<open>
  \<open>KIDMetric.extract_fake_features\<close>. \<open>G_training\<close> is \<open>G.training\<close> at entry. The
  result is the returned features (or \<open>None\<close>), \<open>G.training\<close> at return, and the calls
  of the generator.
\<close>

definition extract_fake_features ::
  "'a KIDMetric_scheme \<Rightarrow> G_forward \<Rightarrow> bool \<Rightarrow> kwargs
     \<Rightarrow> py_error + ndarray option \<times> bool \<times> (bool \<times> tslice list \<times> tslice list) list" where
  "extract_fake_features self G G_training G_kwargs =
     (let G_mode = G_training;
          G_training = False
      in if batch_size self = 0 then Inl ValueError
         else
           let (all_features, calls) =
                 fake_features_loop self G G_kwargs
                   (py_range (replica_latent_num self) (batch_size self)) ([], [])
           in bindE (first_rows (gather_all_results self all_features) (fake_num self))
                (\<lambda>all_features.
              bindE (if is_chief self
                     then if map int (shape all_features) = [fake_num self, int FEATURE_DIM]
                          then Inr (Some all_features)
                          else Inl AssertionError
                     else bindE (array_len all_features) (\<lambda>n.
                          if n = 0 then Inr None else Inl AssertionError))
                (\<lambda>all_features.
              let G_training = (if G_mode then True else G_training)
              in Inr (all_features, G_training, calls))))"

subsection \<open>GANSnapshotMultiView\<close>

text \<open>\<open>np.linspace(start, stop, num)\<close> for \<open>num\<close> of at least two.\<close>

definition np_linspace :: "real \<Rightarrow> real \<Rightarrow> nat \<Rightarrow> real list" where
  "np_linspace start stop num =
     map (\<lambda>i. start + real i * ((stop - start) / real (num - 1))) [0..<num]"

text \<open>
  One pass of the loop \<open>for azimuthal in np.linspace(...)\<close> of \<open>synthesize\<close>.
  \<open>sample_camera_extrinsics\<close> is not part of the sources at hand and is a parameter, a
  function of the arguments it is called with. The state is \<open>all_images\<close> and the list
  of the calls of the generator: its training mode, the codes, the labels and the
  arguments of the camera.
\<close>

definition render_view ::
  "'a GANSnapshotMultiView_scheme \<Rightarrow> (camera_args \<Rightarrow> cam2world) \<Rightarrow> G_forward \<Rightarrow> kwargs
     \<Rightarrow> tslice list \<Rightarrow> tslice list \<Rightarrow> nat \<Rightarrow> real
     \<Rightarrow> ndarray list \<times> (bool \<times> tslice list \<times> tslice list \<times> camera_args) list
     \<Rightarrow> ndarray list \<times> (bool \<times> tslice list \<times> tslice list \<times> camera_args) list" where
  "render_view self sample_camera_extrinsics G G_kwargs batch_codes batch_labels n azimuthal st =
     (case st of (all_images, calls) \<Rightarrow>
        let args = \<lparr>cam_batch_size = n, radius_fix = radius self, polar_fix = pi / 2,
                    azimuthal_fix = azimuthal\<rparr>;
            cam2world_matrix = sample_camera_extrinsics args;
            batch_images = G False batch_codes batch_labels G_kwargs (Some cam2world_matrix);
            gathered_images = gather_batch_results self batch_images
        in (append_batch_results self gathered_images all_images,
            calls @ [(False, batch_codes, batch_labels, args)]))"

text \<open>
  The loop \<open>for start in range(0, self.replica_latent_num, batch_size)\<close> of
  \<open>synthesize\<close>, where \<open>batch_size\<close> is 1. The name \<open>g1\<close> is bound only when
  \<open>self.random_latents\<close> holds, and \<open>torch.randn(..., generator=g1, ...)\<close> raises
  \<open>UnboundLocalError\<close> otherwise.
\<close>

fun synthesize_loop ::
  "'a GANSnapshotMultiView_scheme \<Rightarrow> (camera_args \<Rightarrow> cam2world) \<Rightarrow> G_forward \<Rightarrow> kwargs
     \<Rightarrow> nat list
     \<Rightarrow> ndarray list \<times> (bool \<times> tslice list \<times> tslice list \<times> camera_args) list
     \<Rightarrow> py_error + ndarray list \<times> (bool \<times> tslice list \<times> tslice list \<times> camera_args) list" where
  "synthesize_loop self sample_camera_extrinsics G G_kwargs [] st = Inr st"
| "synthesize_loop self sample_camera_extrinsics G G_kwargs (start # rest) st =
     (let end = min (start + 1) (replica_latent_num self)
      in if \<not> random_latents self then Inl UnboundLocalError
         else
           let batch_codes = randn_g1 self start (end - start);
               batch_labels = batch_labels_of self start end
           in synthesize_loop self sample_camera_extrinsics G G_kwargs rest
                (fold (render_view self sample_camera_extrinsics G G_kwargs batch_codes
                         batch_labels (end - start))
                   (np_linspace (azimuthal_start self) (azimuthal_end self) 8) st))"

text \<open>
  \<open>GANSnapshotMultiView.synthesize\<close>. The result is the returned images (or \<open>None\<close>),
  \<open>G.training\<close> at return, and the calls of the generator.
\<close>

definition synthesize ::
  "'a GANSnapshotMultiView_scheme \<Rightarrow> (camera_args \<Rightarrow> cam2world) \<Rightarrow> G_forward \<Rightarrow> bool
     \<Rightarrow> kwargs
     \<Rightarrow> py_error + ndarray option \<times> bool
          \<times> (bool \<times> tslice list \<times> tslice list \<times> camera_args) list" where
  "synthesize self sample_camera_extrinsics G G_training G_kwargs =
     (let G_mode = G_training;
          G_training = False
      in bindE (synthesize_loop self sample_camera_extrinsics G G_kwargs
                  (py_range (replica_latent_num self) 1) ([], []))
           (\<lambda>(all_images, calls).
         bindE (first_rows (gather_all_results self all_images) (latent_num self * 8))
           (\<lambda>all_images.
         bindE (if is_chief self
                then (case shape all_images of
                        [] \<Rightarrow> Inl IndexError
                      | n # rest \<Rightarrow>
                          if int n = latent_num self * 8 then Inr (Some all_images)
                          else Inl AssertionError)
                else bindE (array_len all_images) (\<lambda>n.
                     if n = 0 then Inr None else Inl AssertionError))
           (\<lambda>all_images.
         let G_training = (if G_mode then True else G_training)
         in Inr (all_images, G_training, calls)))))"

subsection \<open>Metric objects for concrete runs\<close>

text \<open>
  A single process (the chief) whose gathering functions keep what they are given:
  \<open>gather_all_results\<close> stacks arrays of one row along the first dimension.
\<close>

definition example_base :: BaseGANMetric where
  "example_base =
     \<lparr>name = ''KID'', batch_size = 1, latent_num = 2, label_dim = 0, is_chief = True,
      world_size = 1, random_latents = True, random_labels = True, replica_latent_num = 2,
      get_replica_num = (\<lambda>n. n),
      gather_batch_results = (\<lambda>a. a),
      append_batch_results = (\<lambda>a results. results @ [a]),
      gather_all_results =
        (\<lambda>results. \<lparr>shape = length results # (case results of [] \<Rightarrow> [] | a # rest \<Rightarrow> tl (shape a)),
                     entries = concat (map entries results)\<rparr>),
      latent_codes_file = [Vec [0], Vec [1]],
      labels_file = [Vec [], Vec []],
      randn_g1 = (\<lambda>start n. replicate n (Vec [real start])),
      randint_g2 = (\<lambda>start n. replicate n 0)\<rparr>"

definition example_kid :: KIDMetric where
  "example_kid =
     BaseGANMetric.extend example_base
       (KIDMetric.fields (-1) 2 50 1000
          (\<lambda>a. \<lparr>shape = [hd (shape a), FEATURE_DIM],
                 entries = replicate (hd (shape a) * FEATURE_DIM) 0\<rparr>))"

definition example_snapshot :: GANSnapshotMultiView where
  "example_snapshot =
     BaseGANMetric.extend (example_base\<lparr>name := ''snapshot_multi_view''\<rparr>)
       (GANSnapshotMultiView.fields (-1) 1 1 (pi / 2 - 6 / 10) (pi / 2 + 6 / 10))"

definition example_G :: G_forward where
  "example_G training codes labels kw cam =
     \<lparr>shape = [length codes, 1, 1, 1], entries = replicate (length codes) 0\<rparr>"

definition example_camera :: "camera_args \<Rightarrow> cam2world" where
  "example_camera args = replicate (cam_batch_size args) [[azimuthal_fix args]]"




text \<open>
  The eight calls of the generator that \<open>synthesize\<close> makes for the latent code drawn in
  the iteration \<open>start\<close>: one for each azimuthal angle of \<open>np.linspace\<close>, at the radius
  \<open>self.radius\<close> and the polar angle \<open>pi / 2\<close>, in eval mode.
\<close>

definition view_calls ::
  "'a GANSnapshotMultiView_scheme \<Rightarrow> nat \<Rightarrow> (bool \<times> tslice list \<times> tslice list \<times> camera_args) list" where
  "view_calls self start =
     map (\<lambda>az. (False, randn_g1 self start 1, batch_labels_of self start (start + 1),
           \<lparr>cam_batch_size = 1, radius_fix = radius self, polar_fix = pi / 2,
            azimuthal_fix = az\<rparr>))
       (np_linspace (azimuthal_start self) (azimuthal_end self) 8)"

section \<open>Verified properties\<close>

subsection \<open>The KID metric\<close>

text \<open>
  C9. \<open>KIDMetric._is_better_than\<close> treats lower values as better: called with the
  metric's own name it returns a boolean, which is \<open>True\<close> if and only if \<open>ref\<close> is
  \<open>None\<close> or \<open>new < ref\<close>; called with any other name it returns \<open>None\<close>.
\<close>

theorem is_better_than_lower:
  "(is_better_than self (name self) new ref = Some True
      \<longleftrightarrow> (ref = None \<or> (\<exists>r. ref = Some r \<and> new < r)))
   \<and> (is_better_than self (name self) new ref = Some True
      \<or> is_better_than self (name self) new ref = Some False)
   \<and> (metric_name \<noteq> name self \<longrightarrow> is_better_than self metric_name new ref = None)"
  by (cases ref) (simp_all add: is_better_than_def)

theorem is_better_than_lower_witness:
  "is_better_than example_kid ''FID'' 1 (Some 2) = None"
proof -
  have "''FID'' \<noteq> name example_kid"
    by (simp add: example_kid_def example_base_def BaseGANMetric.defs)
  with is_better_than_lower [where metric_name = "''FID''" and self = example_kid
      and new = 1 and ref = "Some 2"]
  show ?thesis by simp
qed

subsection \<open>Batch splitting in run\_G and run\_D\<close>











lemma concat_chunks:
  "concat (map (\<lambda>j. py_slice xs (j * n) (j * n + n)) [0..<k]) = take (k * n) xs"
proof (induction k)
  case 0
  then show ?case by simp
next
  case (Suc k)
  have "take (k * n) xs @ take n (drop (k * n) xs) = take (k * n + n) xs"
    by (simp add: take_add)
  then show ?case using Suc by (simp add: py_slice_def add.commute)
qed

lemma chunks_of_batch:
  fixes xs :: "'a list"
  assumes "0 < n" and "length xs = k * n"
  shows "\<forall>c \<in> set (map (\<lambda>j. py_slice xs (j * n) (j * n + n)) [0..<k]). length c = n"
    and "concat (map (\<lambda>j. py_slice xs (j * n) (j * n + n)) [0..<k]) = xs"
proof -
  show "\<forall>c \<in> set (map (\<lambda>j. py_slice xs (j * n) (j * n + n)) [0..<k]). length c = n"
  proof
    fix c assume "c \<in> set (map (\<lambda>j. py_slice xs (j * n) (j * n + n)) [0..<k])"
    then obtain j where j: "j < k" and c: "c = py_slice xs (j * n) (j * n + n)" by auto
    from j have "Suc j \<le> k" by simp
    then have "Suc j * n \<le> k * n" by (rule mult_le_mono1)
    then have "j * n + n \<le> length xs" using assms(2) by (simp add: add.commute)
    then show "length c = n" by (simp add: c py_slice_def)
  qed
  show "concat (map (\<lambda>j. py_slice xs (j * n) (j * n + n)) [0..<k]) = xs"
    using assms(2) by (simp add: concat_chunks)
qed







subsection \<open>Level-of-detail blending\<close>

lemma map_eq_replicate_iff:
  "map g xs = replicate n k \<longleftrightarrow> length xs = n \<and> (\<forall>x \<in> set xs. g x = k)"
proof
  assume h: "map g xs = replicate n k"
  then have "length (map g xs) = length (replicate n k)" by simp
  then have l: "length xs = n" by simp
  have "\<forall>x \<in> set xs. g x = k"
  proof
    fix x assume "x \<in> set xs"
    then have "g x \<in> set (map g xs)" by simp
    with h show "g x = k" by simp
  qed
  with l show "length xs = n \<and> (\<forall>x \<in> set xs. g x = k)" by simp
next
  assume "length xs = n \<and> (\<forall>x \<in> set xs. g x = k)"
  then show "map g xs = replicate n k"
    by (metis map_replicate_const map_eq_conv)
qed

lemma has_shape_iff:
  "has_shape images (n, c, h, w) \<longleftrightarrow>
     length images = n \<and>
     (\<forall>img \<in> set images. length img = c \<and>
        (\<forall>ch \<in> set img. length ch = h \<and> (\<forall>row \<in> set ch. length row = w)))"
  by (simp add: has_shape_def dims4_def map_eq_replicate_iff)

lemma length_avg_rows: "length (avg_rows r1 r2) = min (length r1) (length r2) div 2"
  by (induction r1 r2 rule: avg_rows.induct) simp_all

lemma length_avg_pool_channel: "length (avg_pool_channel ch) = length ch div 2"
  by (induction ch rule: avg_pool_channel.induct) simp_all

lemma set_avg_pool_channel:
  "row \<in> set (avg_pool_channel ch) \<Longrightarrow> \<exists>r1 \<in> set ch. \<exists>r2 \<in> set ch. row = avg_rows r1 r2"
  by (induction ch rule: avg_pool_channel.induct) auto

lemma avg_pool2d_shape:
  assumes "has_shape x (n, c, h, w)" and "2 \<le> h" and "2 \<le> w"
  shows "\<exists>y. avg_pool2d x = Inr y \<and> has_shape y (n, c, h div 2, w div 2)"
proof -
  from assms(1) have len: "length x = n"
    and img: "\<And>i. i \<in> set x \<Longrightarrow> length i = c"
    and ch: "\<And>i ch. i \<in> set x \<Longrightarrow> ch \<in> set i \<Longrightarrow> length ch = h"
    and row: "\<And>i ch r. i \<in> set x \<Longrightarrow> ch \<in> set i \<Longrightarrow> r \<in> set ch \<Longrightarrow> length r = w"
    by (auto simp: has_shape_iff)
  have ok: "list_all (list_all (\<lambda>ch. 2 \<le> length ch \<and> list_all (\<lambda>row. 2 \<le> length row) ch)) x"
    using ch row assms(2,3) by (auto simp: list_all_iff)
  have "has_shape (map (map avg_pool_channel) x) (n, c, h div 2, w div 2)"
    unfolding has_shape_iff
  proof (intro conjI ballI)
    show "length (map (map avg_pool_channel) x) = n" using len by simp
  next
    fix i assume "i \<in> set (map (map avg_pool_channel) x)"
    then obtain i0 where i0: "i0 \<in> set x" "i = map avg_pool_channel i0" by auto
    show "length i = c" using i0 img by simp
    fix c' assume "c' \<in> set i"
    then obtain c0 where c0: "c0 \<in> set i0" "c' = avg_pool_channel c0" using i0 by auto
    show "length c' = h div 2" using c0 ch [OF i0(1) c0(1)] by (simp add: length_avg_pool_channel)
    fix r assume "r \<in> set c'"
    then obtain r1 r2 where r: "r1 \<in> set c0" "r2 \<in> set c0" "r = avg_rows r1 r2"
      using c0 set_avg_pool_channel by blast
    show "length r = w div 2"
      using r row [OF i0(1) c0(1)] by (simp add: length_avg_rows)
  qed
  then show ?thesis using ok by (simp add: avg_pool2d_def)
qed

lemma downsample_shape:
  "has_shape x (n, c, h, w) \<Longrightarrow> 0 < h \<Longrightarrow> 0 < w \<Longrightarrow> 2 ^ k dvd h \<Longrightarrow> 2 ^ k dvd w \<Longrightarrow>
   \<exists>y. downsample k x = Inr y \<and> has_shape y (n, c, h div 2 ^ k, w div 2 ^ k)"
proof (induction k arbitrary: x h w)
  case 0
  then show ?case by simp
next
  case (Suc k)
  from Suc.prems obtain h' w' where hw: "h = 2 * (2 ^ k * h')" "w = 2 * (2 ^ k * w')"
    by (auto simp: dvd_def mult.assoc)
  with Suc.prems have pos: "0 < h'" "0 < w'" by auto
  have h2: "2 \<le> h" "2 \<le> w" using hw pos by auto
  from avg_pool2d_shape [OF Suc.prems(1) h2] obtain y where
    y: "avg_pool2d x = Inr y" "has_shape y (n, c, h div 2, w div 2)" by blast
  have d: "h div 2 = 2 ^ k * h'" "w div 2 = 2 ^ k * w'" using hw by auto
  from Suc.IH [OF y(2)] d pos obtain z where
    z: "downsample k y = Inr z" "has_shape z (n, c, h div 2 div 2 ^ k, w div 2 div 2 ^ k)"
    by auto
  have "h div 2 div 2 ^ k = h div 2 ^ Suc k" "w div 2 div 2 ^ k = w div 2 ^ Suc k"
    by (simp_all add: div_mult2_eq)
  with y z show ?case by (simp add: bindE_def)
qed

lemma length_nearest_nat: "length (nearest (real m) xs) = length xs * m"
proof -
  have "real (length xs) * real m = real (length xs * m)" by simp
  then have "nat \<lfloor>real (length xs) * real m\<rfloor> = length xs * m"
    by (simp only: floor_of_nat nat_int)
  then show ?thesis by (simp add: nearest_def)
qed

lemma set_nearest: "xs \<noteq> [] \<Longrightarrow> set (nearest s xs) \<subseteq> set xs"
proof
  fix x assume ne: "xs \<noteq> []" and "x \<in> set (nearest s xs)"
  then obtain i where x: "x = xs ! min (nat \<lfloor>real i / s\<rfloor>) (length xs - 1)"
    by (auto simp: nearest_def)
  from ne have "min (nat \<lfloor>real i / s\<rfloor>) (length xs - 1) < length xs"
    by (cases xs) auto
  then show "x \<in> set xs" unfolding x by (rule nth_mem)
qed

lemma F_interpolate_shape:
  assumes "has_shape x (n, c, h, w)" and "0 < h" and "0 < w" and "0 < m"
  shows "\<exists>y. F_interpolate x (real m) = Inr y \<and> has_shape y (n, c, h * m, w * m)"
proof -
  from assms(1) have len: "length x = n"
    and img: "\<And>i. i \<in> set x \<Longrightarrow> length i = c"
    and ch: "\<And>i ch. i \<in> set x \<Longrightarrow> ch \<in> set i \<Longrightarrow> length ch = h"
    and row: "\<And>i ch r. i \<in> set x \<Longrightarrow> ch \<in> set i \<Longrightarrow> r \<in> set ch \<Longrightarrow> length r = w"
    by (auto simp: has_shape_iff)
  let ?out = "map (map (\<lambda>ch. map (nearest (real m)) (nearest (real m) ch))) x"
  have sh: "has_shape ?out (n, c, h * m, w * m)"
    unfolding has_shape_iff
  proof (intro conjI ballI)
    show "length ?out = n" using len by simp
  next
    fix i assume "i \<in> set ?out"
    then obtain i0 where i0: "i0 \<in> set x"
      "i = map (\<lambda>ch. map (nearest (real m)) (nearest (real m) ch)) i0" by auto
    show "length i = c" using i0 img by simp
    fix c' assume "c' \<in> set i"
    then obtain c0 where c0: "c0 \<in> set i0" "c' = map (nearest (real m)) (nearest (real m) c0)"
      using i0 by auto
    have lc0: "length c0 = h" using ch [OF i0(1) c0(1)] .
    show "length c' = h * m" using c0 lc0 by (simp add: length_nearest_nat)
    fix r assume "r \<in> set c'"
    then obtain r0 where r0: "r0 \<in> set (nearest (real m) c0)" "r = nearest (real m) r0"
      using c0 by auto
    from lc0 assms(2) have "c0 \<noteq> []" by auto
    with r0(1) set_nearest have "r0 \<in> set c0" by blast
    then show "length r = w * m" using r0(2) row [OF i0(1) c0(1)] by (simp add: length_nearest_nat)
  qed
  have "list_all (list_all (\<lambda>ch. ch \<noteq> [] \<and> list_all (\<lambda>row. row \<noteq> []) ch)) ?out"
    unfolding list_all_iff
  proof (intro ballI conjI)
    fix i c' assume a: "i \<in> set ?out" "c' \<in> set i"
    with sh have l: "length c' = h * m" by (auto simp: has_shape_iff)
    with assms show "c' \<noteq> []" by auto
    fix r assume "r \<in> set c'"
    with a sh have "length r = w * m" unfolding has_shape_iff by blast
    with assms show "r \<noteq> []" by auto
  qed
  with sh show ?thesis by (simp add: F_interpolate_def Let_def)
qed


lemma dims4_mul4: "dims4 (mul4 a x) = dims4 a"
  by (simp add: dims4_def mul4_def comp_def)

lemma map2_dims:
  assumes "map g xs = map g ys"
    and "\<And>x y. x \<in> set xs \<Longrightarrow> y \<in> set ys \<Longrightarrow> g x = g y \<Longrightarrow> g' (f x y) = g x"
  shows "map g' (map2 f xs ys) = map g xs"
  using assms
proof (induction xs arbitrary: ys)
  case Nil
  then show ?case by simp
next
  case (Cons x xs)
  then obtain y ys' where ys: "ys = y # ys'" by (cases ys) auto
  with Cons.prems(1) have e: "g x = g y" "map g xs = map g ys'" by auto
  have "map g' (map2 f xs ys') = map g xs"
    using Cons.IH [OF e(2)] Cons.prems(2) ys by auto
  moreover have "g' (f x y) = g x" using Cons.prems(2) [of x y] e(1) ys by simp
  ultimately show ?case using ys by simp
qed

lemma add4_dims: "add4 a b = Inr y \<Longrightarrow> dims4 y = dims4 a"
proof -
  assume h: "add4 a b = Inr y"
  then have e: "dims4 a = dims4 b" and y: "y = map2 (map2 (map2 (map2 (+)))) a b"
    by (auto simp: add4_def split: if_splits)
  have rows: "length (map2 (+) r1 r2) = length r1" if "length r1 = length r2"
    for r1 r2 :: "real list"
    using that by simp
  have chans: "map length (map2 (map2 (+)) c1 c2) = map length c1"
    if "map length c1 = map length c2" for c1 c2 :: "real list list"
    using that
  proof (rule map2_dims)
    fix x y :: "real list" assume "length x = length y"
    then show "length (map2 (+) x y) = length x" by (rule rows)
  qed
  have imgs: "map (map length) (map2 (map2 (map2 (+))) i1 i2) = map (map length) i1"
    if "map (map length) i1 = map (map length) i2" for i1 i2 :: "real list list list"
    using that
  proof (rule map2_dims)
    fix x y :: "real list list" assume "map length x = map length y"
    then show "map length (map2 (map2 (+)) x y) = map length x" by (rule chans)
  qed
  have "map (map (map length)) (map2 (map2 (map2 (map2 (+)))) a b) = map (map (map length)) a"
    using e [unfolded dims4_def]
  proof (rule map2_dims)
    fix x y :: "real list list list" assume "map (map length) x = map (map length) y"
    then show "map (map length) (map2 (map2 (map2 (+))) x y) = map (map length) x"
      by (rule imgs)
  qed
  then show ?thesis by (simp add: y dims4_def)
qed

lemma add4_same_dims: "dims4 a = dims4 b \<Longrightarrow> \<exists>y. add4 a b = Inr y"
  by (simp add: add4_def)

lemma has_shape_dims4: "dims4 x = dims4 y \<Longrightarrow> has_shape x s = has_shape y s"
  by (cases s) (simp add: has_shape_def)

lemma lod_blend_dims: "lod_blend x alpha = Inr y \<Longrightarrow> dims4 y = dims4 x"
  by (auto simp: lod_blend_def bindE_def dims4_mul4 split: sum.splits dest!: add4_dims)

lemma lod_blend_shape:
  assumes "has_shape x (n, c, h, w)" and "0 < h" and "0 < w" and "2 dvd h" and "2 dvd w"
  shows "\<exists>y. lod_blend x alpha = Inr y \<and> has_shape y (n, c, h, w)"
proof -
  from assms have h2: "2 \<le> h" "2 \<le> w" by (auto dest: dvd_imp_le)
  from avg_pool2d_shape [OF assms(1) h2] obtain d where
    d: "avg_pool2d x = Inr d" "has_shape d (n, c, h div 2, w div 2)" by blast
  from h2 have pos: "0 < h div 2" "0 < w div 2" by auto
  from F_interpolate_shape [OF d(2) pos, of 2] obtain u where
    u: "F_interpolate d 2 = Inr u" "has_shape u (n, c, h div 2 * 2, w div 2 * 2)" by auto
  from assms(4,5) have "h div 2 * 2 = h" "w div 2 * 2 = w" by auto
  with u(2) have us: "has_shape u (n, c, h, w)" by simp
  have "dims4 (mul4 x (1 - alpha)) = dims4 (mul4 u alpha)"
    using assms(1) us by (simp add: dims4_mul4 has_shape_def)
  from add4_same_dims [OF this] obtain y where
    y: "add4 (mul4 x (1 - alpha)) (mul4 u alpha) = Inr y" by blast
  from add4_dims [OF y] have "dims4 y = dims4 x" by (simp add: dims4_mul4)
  with assms(1) have "has_shape y (n, c, h, w)" by (simp add: has_shape_def)
  with d(1) u(1) y show ?thesis by (simp add: lod_blend_def bindE_def)
qed

lemma nearest_one: "nearest 1 xs = xs"
proof (rule nth_equalityI)
  show "length (nearest 1 xs) = length xs" by (simp add: nearest_def)
next
  fix i assume "i < length (nearest 1 xs)"
  then have i: "i < length xs" by (simp add: nearest_def)
  then have "min i (length xs - 1) = i" by simp
  with i show "nearest 1 xs ! i = xs ! i" by (simp add: nearest_def)
qed

lemma nearest_one_id: "nearest 1 = (\<lambda>xs. xs)"
  by (rule ext) (rule nearest_one)

lemma F_interpolate_one:
  assumes "has_shape x (n, c, h, w)" and "0 < h" and "0 < w"
  shows "F_interpolate x 1 = Inr x"
proof -
  have eq: "map (map (\<lambda>ch. map (nearest 1) (nearest 1 ch))) x = x"
    by (simp add: nearest_one_id)
  have "list_all (list_all (\<lambda>ch. ch \<noteq> [] \<and> list_all (\<lambda>row. row \<noteq> []) ch)) x"
    using assms by (fastforce simp: has_shape_iff list_all_iff)
  then show ?thesis by (simp add: F_interpolate_def eq)
qed


lemma bindE_Inr: "bindE (Inr x) f = f x"
  by (simp add: bindE_def)

lemma bindE_Inl: "bindE (Inl e) f = Inl e"
  by (simp add: bindE_def)

lemma py_int_nonneg: "0 \<le> l \<Longrightarrow> py_int l = int (nat \<lfloor>l\<rfloor>)"
  by (simp add: py_int_def)

lemma py_int_facts:
  assumes "py_int l = int k"
  shows "nat (py_int l) = k" and "real_of_int (py_int l) = real k"
    and "(py_int l = 0) = (k = 0)" and "(2::real) powi py_int l = 2 ^ k"
  using assms by simp_all

lemma preprocess_image_unfold:
  assumes "py_int l = int k"
  shows "preprocess_image images l =
     bindE (downsample k images) (\<lambda>x.
     bindE (if l \<noteq> real k then lod_blend x (l - real k) else Inr x) (\<lambda>y.
     if k = 0 then Inr y else F_interpolate y (2 ^ k)))"
  by (simp only: preprocess_image_def lod_blend_def Let_def py_int_facts [OF assms])

lemma preprocess_image_spec_unfold:
  assumes "py_int l = int k"
  shows "preprocess_image_spec images l =
     bindE (downsample k images) (\<lambda>x.
     bindE (if l \<noteq> real k then lod_blend x (l - real k) else Inr x) (\<lambda>y.
     F_interpolate y (2 ^ k)))"
proof -
  have "(if l = real k then Inr x else lod_blend x (l - real k))
      = (if l \<noteq> real k then lod_blend x (l - real k) else Inr x)" for x
    by simp
  then show ?thesis
    by (simp only: preprocess_image_spec_def Let_def py_int_facts [OF assms])
qed

lemma preprocess_image_refines:
  assumes sh: "has_shape images (n, c, h, w)" and h: "0 < h" and w: "0 < w" and l: "0 \<le> l"
  shows "preprocess_image images l = preprocess_image_spec images l"
proof -
  define k where "k = nat \<lfloor>l\<rfloor>"
  from l have pk: "py_int l = int k" unfolding k_def by (rule py_int_nonneg)
  show ?thesis
  proof (cases "k = 0")
    case False
    then show ?thesis
      by (simp only: preprocess_image_unfold [OF pk] preprocess_image_spec_unfold [OF pk] if_False)
  next
    case True
    define B where "B = (if l \<noteq> real k then lod_blend images (l - real k) else Inr images)"
    have final: "bindE B (\<lambda>y. Inr y) = bindE B (\<lambda>y. F_interpolate y 1)"
    proof (cases B)
      case (Inl e)
      then show ?thesis by (simp only: bindE_Inl)
    next
      case (Inr y)
      then have "dims4 y = dims4 images"
        unfolding B_def by (auto split: if_splits dest: lod_blend_dims)
      with sh have "has_shape y (n, c, h, w)" by (simp add: has_shape_def)
      from F_interpolate_one [OF this h w] Inr show ?thesis by (simp only: bindE_Inr)
    qed
    have "preprocess_image images l = bindE B (\<lambda>y. Inr y)"
      unfolding preprocess_image_unfold [OF pk] B_def using True by (simp add: bindE_Inr)
    moreover have "preprocess_image_spec images l = bindE B (\<lambda>y. F_interpolate y 1)"
      unfolding preprocess_image_spec_unfold [OF pk] B_def using True by (simp add: bindE_Inr)
    ultimately show ?thesis using final by simp
  qed
qed

lemma preprocess_image_zero: "preprocess_image images 0 = Inr images"
  by (simp add: preprocess_image_def py_int_def bindE_def)

lemma preprocess_image_final_shape:
  assumes y: "has_shape y (n, c, h div 2 ^ k, w div 2 ^ k)" and h: "0 < h" and w: "0 < w"
    and dh: "2 ^ k dvd h" and dw: "2 ^ k dvd w"
  shows "\<exists>out. (if k = 0 then Inr y else F_interpolate y (2 ^ k)) = Inr out
           \<and> has_shape out (n, c, h, w)"
proof (cases "k = 0")
  case True
  with y show ?thesis by simp
next
  case False
  from dh dw h w have pos: "0 < h div 2 ^ k" "0 < w div 2 ^ k"
    by (auto elim!: dvdE)
  have "0 < (2::nat) ^ k" by simp
  from F_interpolate_shape [OF y pos this] obtain out where
    out: "F_interpolate y (real ((2::nat) ^ k)) = Inr out"
    "has_shape out (n, c, h div 2 ^ k * 2 ^ k, w div 2 ^ k * 2 ^ k)" by blast
  from dh dw have "h div 2 ^ k * 2 ^ k = h" "w div 2 ^ k * 2 ^ k = w" by auto
  with out False show ?thesis by simp
qed

lemma preprocess_image_shape:
  assumes sh: "has_shape images (n, c, h, w)" and h: "0 < h" and w: "0 < w" and l: "0 \<le> l"
    and dh: "2 ^ nat \<lceil>l\<rceil> dvd h" and dw: "2 ^ nat \<lceil>l\<rceil> dvd w"
  shows "\<exists>out. preprocess_image images l = Inr out \<and> has_shape out (n, c, h, w)"
proof -
  define k where "k = nat \<lfloor>l\<rfloor>"
  from l have pk: "py_int l = int k" unfolding k_def by (rule py_int_nonneg)
  show ?thesis
  proof (cases "l = real k")
    case True
    then have "nat \<lceil>l\<rceil> = k" by simp
    with dh dw have d: "2 ^ k dvd h" "2 ^ k dvd w" by simp_all
    from downsample_shape [OF sh h w d] obtain y where
      y: "downsample k images = Inr y" "has_shape y (n, c, h div 2 ^ k, w div 2 ^ k)" by blast
    from preprocess_image_final_shape [OF y(2) h w d] obtain out where
      out: "(if k = 0 then Inr y else F_interpolate y (2 ^ k)) = Inr out"
      "has_shape out (n, c, h, w)" by blast
    have nb: "(if l \<noteq> real k then lod_blend y (l - real k) else Inr y) = Inr y"
      using True by simp
    have "preprocess_image images l = (if k = 0 then Inr y else F_interpolate y (2 ^ k))"
      by (simp only: preprocess_image_unfold [OF pk] y(1) bindE_Inr nb)
    with out show ?thesis by simp
  next
    case False
    then have "l \<noteq> real_of_int \<lfloor>l\<rfloor>" using l by (simp add: k_def)
    then have "\<lceil>l\<rceil> = \<lfloor>l\<rfloor> + 1" by (metis ceiling_altdef of_int_floor_cancel)
    then have c: "nat \<lceil>l\<rceil> = Suc k" using l by (simp add: k_def nat_add_distrib)
    from dh dw c obtain h' w' where hw: "h = 2 ^ k * (2 * h')" "w = 2 ^ k * (2 * w')"
      by (auto simp: dvd_def mult.assoc mult.left_commute)
    then have d: "2 ^ k dvd h" "2 ^ k dvd w" by simp_all
    from downsample_shape [OF sh h w d] obtain x where
      x: "downsample k images = Inr x" "has_shape x (n, c, h div 2 ^ k, w div 2 ^ k)" by blast
    from hw h w have q: "h div 2 ^ k = 2 * h'" "w div 2 ^ k = 2 * w'" "0 < h'" "0 < w'"
      by auto
    then have "0 < h div 2 ^ k" "0 < w div 2 ^ k" "2 dvd h div 2 ^ k" "2 dvd w div 2 ^ k"
      by simp_all
    from lod_blend_shape [OF x(2) this] obtain y where
      y: "lod_blend x (l - real k) = Inr y"
      "has_shape y (n, c, h div 2 ^ k, w div 2 ^ k)" by blast
    from preprocess_image_final_shape [OF y(2) h w d] obtain out where
      out: "(if k = 0 then Inr y else F_interpolate y (2 ^ k)) = Inr out"
      "has_shape out (n, c, h, w)" by blast
    have bl: "(if l \<noteq> real k then lod_blend x (l - real k) else Inr x) = Inr y"
      using False y(1) by simp
    have "preprocess_image images l = (if k = 0 then Inr y else F_interpolate y (2 ^ k))"
      by (simp only: preprocess_image_unfold [OF pk] x(1) bindE_Inr bl)
    with out show ?thesis by simp
  qed
qed

text \<open>
  C4. \<open>preprocess_image\<close> is the level-of-detail blending of the specification: for a
  level of detail \<open>l \<ge> 0\<close> and a batch of \<open>n\<close> images of \<open>c\<close> channels, \<open>h > 0\<close> rows
  and \<open>w > 0\<close> columns, it downsamples \<open>int(l)\<close> times by average pooling, blends with
  the weight \<open>l - int(l)\<close> when \<open>l\<close> is not an integer, and upsamples by
  \<open>2 ^ int(l)\<close> (\<open>preprocess_image_spec\<close>). For \<open>l = 0\<close> it returns its input, and
  when \<open>2 ^ ceil(l)\<close> divides \<open>h\<close> and \<open>w\<close> it returns a batch of the shape of its
  input.
\<close>

theorem preprocess_image_lod:
  assumes "has_shape images (n, c, h, w)" and "0 < h" and "0 < w" and "0 \<le> l"
  shows "preprocess_image images l = preprocess_image_spec images l
    \<and> preprocess_image images 0 = Inr images
    \<and> (2 ^ nat \<lceil>l\<rceil> dvd h \<and> 2 ^ nat \<lceil>l\<rceil> dvd w \<longrightarrow>
         (\<exists>out. preprocess_image images l = Inr out \<and> has_shape out (n, c, h, w)))"
  using preprocess_image_refines [OF assms] preprocess_image_zero
    preprocess_image_shape [OF assms]
  by blast

theorem preprocess_image_lod_witness:
  "(\<exists>out. preprocess_image [[[[1, 2], [3, 4]]]] (1 / 2) = Inr out
          \<and> has_shape out (1, 1, 2, 2))
   \<and> preprocess_image [[[[1, 2], [3, 4]]]] (1 / 2)
       = preprocess_image_spec [[[[1, 2], [3, 4]]]] (1 / 2)"
proof -
  have s: "has_shape [[[[1, 2], [3, 4]]]] (1, 1, 2, 2)"
    by (simp add: has_shape_def dims4_def numeral_2_eq_2)
  have "\<lceil>1 / 2 :: real\<rceil> = 1" by (rule ceiling_unique) simp_all
  then have d: "2 ^ nat \<lceil>1 / 2 :: real\<rceil> dvd (2::nat)" by simp
  have p: "0 < (2::nat)" "0 \<le> (1 / 2 :: real)" by simp_all
  from d preprocess_image_lod [OF s p(1) p(1) p(2)] show ?thesis by blast
qed

subsection \<open>The gradient penalty\<close>

lemma map_eq_nth: "map f a = map f b \<Longrightarrow> n < length a \<Longrightarrow> f (a ! n) = f (b ! n)"
  by (metis length_map nth_map)

lemma dims4_eq_lengths:
  assumes "dims4 a = dims4 b"
  shows "length a = length b"
    and "n < length a \<Longrightarrow> length (a ! n) = length (b ! n)"
    and "n < length a \<Longrightarrow> c < length (a ! n) \<Longrightarrow> length (a ! n ! c) = length (b ! n ! c)"
    and "n < length a \<Longrightarrow> c < length (a ! n) \<Longrightarrow> i < length (a ! n ! c) \<Longrightarrow>
           length (a ! n ! c ! i) = length (b ! n ! c ! i)"
proof -
  from assms have m: "map (map (map length)) a = map (map (map length)) b"
    by (simp add: dims4_def)
  from m show "length a = length b" by (rule map_eq_imp_length_eq)
  {
    assume n: "n < length a"
    from map_eq_nth [OF m n] have m1: "map (map length) (a ! n) = map (map length) (b ! n)" .
    from m1 show "length (a ! n) = length (b ! n)" by (rule map_eq_imp_length_eq)
    {
      assume c: "c < length (a ! n)"
      from map_eq_nth [OF m1 c] have m2: "map length (a ! n ! c) = map length (b ! n ! c)" .
      from m2 show "length (a ! n ! c) = length (b ! n ! c)" by (rule map_eq_imp_length_eq)
      {
        assume i: "i < length (a ! n ! c)"
        from map_eq_nth [OF m2 i] show "length (a ! n ! c ! i) = length (b ! n ! c ! i)" .
      }
    }
  }
qed

lemma tensor4_eqI:
  assumes d: "dims4 a = dims4 b"
    and e: "\<And>n c i j. n < length a \<Longrightarrow> c < length (a ! n) \<Longrightarrow> i < length (a ! n ! c) \<Longrightarrow>
              j < length (a ! n ! c ! i) \<Longrightarrow> a ! n ! c ! i ! j = b ! n ! c ! i ! j"
  shows "a = b"
proof (rule nth_equalityI)
  show "length a = length b" using d by (rule dims4_eq_lengths)
next
  fix n assume n: "n < length a"
  show "a ! n = b ! n"
  proof (rule nth_equalityI)
    show "length (a ! n) = length (b ! n)" using d n by (rule dims4_eq_lengths)
  next
    fix c assume c: "c < length (a ! n)"
    show "a ! n ! c = b ! n ! c"
    proof (rule nth_equalityI)
      show "length (a ! n ! c) = length (b ! n ! c)" using d n c by (rule dims4_eq_lengths)
    next
      fix i assume i: "i < length (a ! n ! c)"
      show "a ! n ! c ! i = b ! n ! c ! i"
      proof (rule nth_equalityI)
        show "length (a ! n ! c ! i) = length (b ! n ! c ! i)"
          using d n c i by (rule dims4_eq_lengths)
      next
        fix j assume "j < length (a ! n ! c ! i)"
        with n c i show "a ! n ! c ! i ! j = b ! n ! c ! i ! j" by (rule e)
      qed
    qed
  qed
qed

lemma dims4_div4: "dims4 (div4 a s) = dims4 a"
  by (simp add: dims4_def div4_def comp_def)

lemma div4_nth:
  "n < length a \<Longrightarrow> c < length (a ! n) \<Longrightarrow> i < length (a ! n ! c) \<Longrightarrow>
   j < length (a ! n ! c ! i) \<Longrightarrow> div4 a s ! n ! c ! i ! j = a ! n ! c ! i ! j / s"
  by (simp add: div4_def)

lemma is_gradient_unique:
  assumes "is_gradient f x g" and "is_gradient f x g'"
  shows "g = g'"
proof (rule tensor4_eqI)
  from assms show d: "dims4 g = dims4 g'" by (simp add: is_gradient_def)
  from assms have dx: "dims4 g = dims4 x" by (simp add: is_gradient_def)
  fix n c i j
  assume "n < length g" "c < length (g ! n)" "i < length (g ! n ! c)" "j < length (g ! n ! c ! i)"
  with dims4_eq_lengths [OF dx] have r: "n < length x" "c < length (x ! n)"
    "i < length (x ! n ! c)" "j < length (x ! n ! c ! i)" by simp_all
  from assms r have
    "((\<lambda>t. f (upd4 x n c i j t)) has_real_derivative g ! n ! c ! i ! j) (at (x ! n ! c ! i ! j))"
    "((\<lambda>t. f (upd4 x n c i j t)) has_real_derivative g' ! n ! c ! i ! j) (at (x ! n ! c ! i ! j))"
    by (simp_all add: is_gradient_def)
  then show "g ! n ! c ! i ! j = g' ! n ! c ! i ! j" by (rule DERIV_unique)
qed

lemma is_gradient_unscale:
  assumes g: "is_gradient (\<lambda>x. f x * s) x g" and s: "s \<noteq> 0"
  shows "is_gradient f x (div4 g s)"
  unfolding is_gradient_def
proof (intro conjI allI impI)
  from g have dx: "dims4 g = dims4 x" by (simp add: is_gradient_def)
  then show "dims4 (div4 g s) = dims4 x" by (simp add: dims4_div4)
  fix n c i j
  assume r: "n < length x" "c < length (x ! n)" "i < length (x ! n ! c)" "j < length (x ! n ! c ! i)"
  with dims4_eq_lengths [OF dx] have r': "n < length g" "c < length (g ! n)"
    "i < length (g ! n ! c)" "j < length (g ! n ! c ! i)" by simp_all
  from g r have
    "((\<lambda>t. f (upd4 x n c i j t) * s) has_real_derivative g ! n ! c ! i ! j) (at (x ! n ! c ! i ! j))"
    by (simp add: is_gradient_def)
  from DERIV_cdivide [OF this, of s] s
  have "((\<lambda>t. f (upd4 x n c i j t)) has_real_derivative g ! n ! c ! i ! j / s) (at (x ! n ! c ! i ! j))"
    by simp
  then show "((\<lambda>t. f (upd4 x n c i j t)) has_real_derivative div4 g s ! n ! c ! i ! j)
      (at (x ! n ! c ! i ! j))"
    using r' by (simp add: div4_nth)
qed

lemma sum_list_scale:
  "sum_list (map (scale scaler) ys) = (if is_enabled scaler then sum_list ys * scale_factor scaler else sum_list ys)"
proof (cases "is_enabled scaler")
  case True
  then have "scale scaler = (\<lambda>v. v * scale_factor scaler)"
    by (simp add: scale_def fun_eq_iff)
  then show ?thesis using True by (simp only: sum_list_mult_const if_True) simp
next
  case False
  then have "map (scale scaler) ys = ys" by (simp add: scale_def map_idI)
  then show ?thesis using False by simp
qed

lemma sum_list_squares_nonneg: "0 \<le> sum_list (map (\<lambda>v. v * v) (row :: real list))"
  by (rule sum_list_nonneg) auto

lemma l2_norm_square:
  "(l2_norm img)\<^sup>2 = sum_list (map (\<lambda>ch. sum_list (map (\<lambda>row. sum_list (map (\<lambda>v. v * v) row)) ch)) img)"
proof -
  have "0 \<le> sum_list (map (\<lambda>ch. sum_list (map (\<lambda>row. sum_list (map (\<lambda>v. v * v) row)) ch)) img)"
    by (intro sum_list_nonneg) (auto intro!: sum_list_nonneg)
  then show ?thesis by (simp add: l2_norm_def)
qed

lemma square_sum123_norm: "square_sum123 g = map (\<lambda>img. (l2_norm img)\<^sup>2) g"
  by (simp add: square_sum123_def l2_norm_square)

lemma compute_grad_penalty_gradient:
  assumes a: "is_gradient (\<lambda>x. sum_list (map (scale scaler) (scores x))) images
       (autograd_grad (\<lambda>x. sum_list (map (scale scaler) (scores x))) images)"
    and s: "is_enabled scaler \<longrightarrow> scale_factor scaler \<noteq> 0"
  shows "\<exists>g. is_gradient (\<lambda>x. sum_list (scores x)) images g
     \<and> compute_grad_penalty autograd_grad images scores scaler = square_sum123 g"
proof (cases "is_enabled scaler")
  case True
  let ?g = "autograd_grad (\<lambda>x. sum_list (map (scale scaler) (scores x))) images"
  from a True have "is_gradient (\<lambda>x. sum_list (scores x) * scale_factor scaler) images ?g"
    by (simp add: sum_list_scale)
  from is_gradient_unscale [OF this] s True
  have "is_gradient (\<lambda>x. sum_list (scores x)) images (div4 ?g (scale_factor scaler))" by simp
  moreover have "compute_grad_penalty autograd_grad images scores scaler
      = square_sum123 (div4 ?g (scale_factor scaler))"
    using True by (simp add: compute_grad_penalty_def get_scale_def Let_def)
  ultimately show ?thesis by blast
next
  case False
  let ?g = "autograd_grad (\<lambda>x. sum_list (map (scale scaler) (scores x))) images"
  from a False have "is_gradient (\<lambda>x. sum_list (scores x)) images ?g"
    by (simp add: sum_list_scale)
  moreover have "compute_grad_penalty autograd_grad images scores scaler = square_sum123 ?g"
    using False by (simp add: compute_grad_penalty_def Let_def)
  ultimately show ?thesis by blast
qed

lemma length_square_sum123: "length (square_sum123 g) = length g"
  by (simp add: square_sum123_def)

text \<open>
  C1, as amended. When \<open>torch.autograd.grad\<close> returns the gradient of the (scaled)
  summed scores and an enabled scaler has a factor other than zero,
  \<open>compute_grad_penalty\<close> returns one penalty per sample, and each sample's penalty is
  the square of the Euclidean norm (over channel, height and width) of the gradient of
  the summed scores in that sample's image.
\<close>

theorem compute_grad_penalty_squared_norm:
  assumes "is_gradient (\<lambda>x. sum_list (map (scale scaler) (scores x))) images
       (autograd_grad (\<lambda>x. sum_list (map (scale scaler) (scores x))) images)"
    and "is_enabled scaler \<longrightarrow> scale_factor scaler \<noteq> 0"
  shows "\<exists>g. is_gradient (\<lambda>x. sum_list (scores x)) images g
     \<and> length (compute_grad_penalty autograd_grad images scores scaler) = length images
     \<and> compute_grad_penalty autograd_grad images scores scaler
         = map (\<lambda>img. (l2_norm img)\<^sup>2) g"
proof -
  from compute_grad_penalty_gradient [where scores = scores and scaler = scaler
      and autograd_grad = autograd_grad and images = images, OF assms]
  obtain g where
    g: "is_gradient (\<lambda>x. sum_list (scores x)) images g"
    "compute_grad_penalty autograd_grad images scores scaler = square_sum123 g" by blast
  from g(1) have "length g = length images"
    by (auto simp: is_gradient_def dest: dims4_eq_lengths(1))
  with g show ?thesis by (auto simp: square_sum123_norm)
qed

lemma pixel_scores_gradient:
  "is_gradient (\<lambda>x. sum_list (map (\<lambda>v. v * k) (pixel_scores x))) [[[[1]]]] [[[[2 * k]]]]"
  by (auto simp: is_gradient_def dims4_def pixel_scores_def upd4_def
      intro!: derivative_eq_intros)

lemma affine_autograd_pixel_scores:
  "affine_autograd (\<lambda>x. sum_list (map (\<lambda>v. v * k) (pixel_scores x))) [[[[1]]]] = [[[[2 * k]]]]"
  by (simp add: affine_autograd_def pixel_scores_def)

theorem compute_grad_penalty_squared_norm_witness:
  "\<exists>g. is_gradient (\<lambda>x. sum_list (pixel_scores x)) [[[[1]]]] g
     \<and> length (compute_grad_penalty affine_autograd [[[[1]]]] pixel_scores
          \<lparr>is_enabled = True, scale_factor = 3\<rparr>) = length [[[[1::real]]]]
     \<and> compute_grad_penalty affine_autograd [[[[1]]]] pixel_scores
          \<lparr>is_enabled = True, scale_factor = 3\<rparr> = map (\<lambda>img. (l2_norm img)\<^sup>2) g"
proof -
  let ?on = "\<lparr>is_enabled = True, scale_factor = 3\<rparr>"
  have sc: "scale ?on = (\<lambda>v. v * 3)" by (simp add: scale_def fun_eq_iff)
  have "is_gradient (\<lambda>x. sum_list (map (scale ?on) (pixel_scores x))) [[[[1]]]]
       (affine_autograd (\<lambda>x. sum_list (map (scale ?on) (pixel_scores x))) [[[[1]]]])"
    unfolding sc affine_autograd_pixel_scores by (rule pixel_scores_gradient)
  moreover have "is_enabled ?on \<longrightarrow> scale_factor ?on \<noteq> 0" by simp
  ultimately show ?thesis
    by (rule compute_grad_penalty_squared_norm [where scores = pixel_scores and scaler = ?on
      and autograd_grad = affine_autograd and images = "[[[[1]]]]"])
qed

text \<open>
  C1 as stated fails: for one image of one pixel \<open>1\<close> and the score \<open>2 * pixel\<close> the
  gradient is \<open>2\<close>, its Euclidean norm is \<open>2\<close>, and the penalty is \<open>4\<close>.
\<close>

theorem compute_grad_penalty_not_norm:
  "is_gradient (\<lambda>x. sum_list (pixel_scores x)) [[[[1]]]] [[[[2]]]]
   \<and> compute_grad_penalty affine_autograd [[[[1]]]] pixel_scores
        \<lparr>is_enabled = False, scale_factor = 1\<rparr> = [4]
   \<and> map l2_norm [[[[2]]]] = [2]"
proof -
  have "is_gradient (\<lambda>x. sum_list (pixel_scores x)) [[[[1]]]] [[[[2]]]]"
    using pixel_scores_gradient [of 1] by simp
  moreover have "compute_grad_penalty affine_autograd [[[[1]]]] pixel_scores
        \<lparr>is_enabled = False, scale_factor = 1\<rparr> = [4]"
    by (simp add: compute_grad_penalty_def affine_autograd_def pixel_scores_def scale_def
        square_sum123_def Let_def)
  moreover have "map l2_norm [[[[2]]]] = [2]"
    using real_sqrt_abs [of 2] by (simp add: l2_norm_def power2_eq_square)
  ultimately show ?thesis by blast
qed

text \<open>
  C2. The rescaling for mixed precision preserves the penalty: when
  \<open>torch.autograd.grad\<close> returns the gradient of the scaled and of the unscaled summed
  scores, the penalty under an enabled scaler with a factor \<open>s > 0\<close> equals the penalty
  under a disabled scaler.
\<close>

theorem compute_grad_penalty_amp_invariant:
  assumes on: "is_enabled on" and pos: "0 < scale_factor on" and off: "\<not> is_enabled off"
    and g_on: "is_gradient (\<lambda>x. sum_list (map (scale on) (scores x))) images
       (autograd_grad (\<lambda>x. sum_list (map (scale on) (scores x))) images)"
    and g_off: "is_gradient (\<lambda>x. sum_list (scores x)) images
       (autograd_grad (\<lambda>x. sum_list (scores x)) images)"
  shows "compute_grad_penalty autograd_grad images scores on
       = compute_grad_penalty autograd_grad images scores off"
proof -
  from on pos have "is_enabled on \<longrightarrow> scale_factor on \<noteq> 0" by simp
  from compute_grad_penalty_gradient [where scores = scores and scaler = on
      and autograd_grad = autograd_grad and images = images, OF g_on this]
  obtain g where
    g: "is_gradient (\<lambda>x. sum_list (scores x)) images g"
    "compute_grad_penalty autograd_grad images scores on = square_sum123 g" by blast
  from off have "(\<lambda>x. sum_list (map (scale off) (scores x))) = (\<lambda>x. sum_list (scores x))"
    by (simp add: sum_list_scale)
  with off have "compute_grad_penalty autograd_grad images scores off
      = square_sum123 (autograd_grad (\<lambda>x. sum_list (scores x)) images)"
    by (simp add: compute_grad_penalty_def Let_def)
  moreover from g(1) g_off have "g = autograd_grad (\<lambda>x. sum_list (scores x)) images"
    by (rule is_gradient_unique)
  ultimately show ?thesis using g(2) by simp
qed

theorem compute_grad_penalty_amp_invariant_witness:
  "compute_grad_penalty affine_autograd [[[[1]]]] pixel_scores
      \<lparr>is_enabled = True, scale_factor = 3\<rparr>
   = compute_grad_penalty affine_autograd [[[[1]]]] pixel_scores
      \<lparr>is_enabled = False, scale_factor = 3\<rparr>"
proof -
  let ?on = "\<lparr>is_enabled = True, scale_factor = 3\<rparr>"
  let ?off = "\<lparr>is_enabled = False, scale_factor = 3\<rparr>"
  have sc: "scale ?on = (\<lambda>v. v * 3)" by (simp add: scale_def fun_eq_iff)
  have g_on: "is_gradient (\<lambda>x. sum_list (map (scale ?on) (pixel_scores x))) [[[[1]]]]
       (affine_autograd (\<lambda>x. sum_list (map (scale ?on) (pixel_scores x))) [[[[1]]]])"
    unfolding sc affine_autograd_pixel_scores by (rule pixel_scores_gradient)
  have g_off: "is_gradient (\<lambda>x. sum_list (pixel_scores x)) [[[[1]]]]
       (affine_autograd (\<lambda>x. sum_list (pixel_scores x)) [[[[1]]]])"
    using pixel_scores_gradient [of 1] affine_autograd_pixel_scores [of 1] by simp
  have "is_enabled ?on" "0 < scale_factor ?on" "\<not> is_enabled ?off" by simp_all
  from compute_grad_penalty_amp_invariant [where scores = pixel_scores and on = ?on
      and off = ?off and autograd_grad = affine_autograd and images = "[[[[1]]]]",
      OF this g_on g_off]
  show ?thesis .
qed

subsection \<open>Batch splitting: the claim\<close>



subsection \<open>The top-k selection of g\_loss under the StyleSDF configuration\<close>

lemma stylesdf_loss_keys:
  "\<not> key_in ''topk_interval'' (g_loss_kwargs (stylesdf_loss r))"
  "\<not> key_in ''topk_v'' (g_loss_kwargs (stylesdf_loss r))"
  by (simp_all add: stylesdf_loss_def PiGANLoss_init_def parse_options_g_loss_kwargs_def
      key_in_def Let_def)

lemma torch_topk_all:
  "torch_topk scores (int (length scores)) = Inr (rev (sort scores))"
  by (simp add: torch_topk_def)

text \<open>
  C8. The loss object built from the keyword arguments of \<open>StyleSDFConfig.parse_options\<close>
  has the keys \<open>top_k_interval\<close> and \<open>top_v\<close>, so the test of \<open>g_loss\<close> for the keys
  \<open>topk_interval\<close> and \<open>topk_v\<close> fails: \<open>topk_percent\<close> is 1, \<open>topk_num\<close> is
  \<open>runner.batch_size\<close>, and \<open>torch.topk\<close> on the scores of a batch of that size keeps
  every score (sorted, largest first).
\<close>

theorem g_loss_topk_never_applied:
  "\<not> (key_in ''topk_interval'' (g_loss_kwargs (stylesdf_loss r))
       \<and> key_in ''topk_v'' (g_loss_kwargs (stylesdf_loss r)))
   \<and> topk_percent (stylesdf_loss r) rn = Inr 1
   \<and> topk_num (stylesdf_loss r) rn = Inr (int (runner.batch_size rn))
   \<and> (length scores = runner.batch_size rn \<longrightarrow>
        (\<exists>kept. bindE (topk_num (stylesdf_loss r) rn) (torch_topk scores) = Inr kept
           \<and> kept = rev (sort scores) \<and> mset kept = mset scores))"
proof -
  have p: "topk_percent (stylesdf_loss r) rn = Inr 1"
    by (simp add: topk_percent_def stylesdf_loss_keys)
  have n: "topk_num (stylesdf_loss r) rn = Inr (int (runner.batch_size rn))"
    by (simp add: topk_num_def p bindE_def py_int_def)
  have "bindE (topk_num (stylesdf_loss r) rn) (torch_topk scores) = Inr (rev (sort scores))"
    if "length scores = runner.batch_size rn"
    using that torch_topk_all [of scores] by (simp add: n bindE_def)
  then show ?thesis using p n stylesdf_loss_keys by auto
qed

theorem g_loss_topk_never_applied_witness:
  "\<exists>kept. bindE (topk_num (stylesdf_loss 10) example_runner) (torch_topk [1, 3, 2, 0]) = Inr kept
     \<and> mset kept = mset [1, 3, 2, 0]"
proof -
  have "length [1, 3, 2, 0 :: real] = runner.batch_size example_runner"
    by (simp add: example_runner_def)
  with g_loss_topk_never_applied [of 10 example_runner "[1, 3, 2, 0]"] show ?thesis
    by blast
qed

subsection \<open>The cache of inception features\<close>








subsection \<open>Synthesis with the generator in eval mode\<close>

lemma py_range_one: "py_range n 1 = [0..<n]" "py_range n (Suc 0) = [0..<n]"
  by (simp_all add: py_range_def map_idI)

lemma render_view_step:
  "\<exists>imgs'. render_view self cam G G_kwargs codes labels n az (imgs, calls)
     = (imgs', calls @ [(False, codes, labels,
             \<lparr>cam_batch_size = n, radius_fix = radius self, polar_fix = pi / 2,
              azimuthal_fix = az\<rparr>)])"
  by (simp add: render_view_def Let_def)

lemma fold_render_view:
  "\<exists>imgs'. fold (render_view self cam G G_kwargs codes labels n) azs (imgs, calls)
     = (imgs', calls @ map (\<lambda>az. (False, codes, labels,
             \<lparr>cam_batch_size = n, radius_fix = radius self, polar_fix = pi / 2,
              azimuthal_fix = az\<rparr>)) azs)"
proof (induction azs arbitrary: imgs calls)
  case Nil
  then show ?case by simp
next
  case (Cons az azs)
  from render_view_step [of self cam G G_kwargs codes labels n az imgs calls]
  obtain i1 where s: "render_view self cam G G_kwargs codes labels n az (imgs, calls)
     = (i1, calls @ [(False, codes, labels,
             \<lparr>cam_batch_size = n, radius_fix = radius self, polar_fix = pi / 2,
              azimuthal_fix = az\<rparr>)])" by blast
  from Cons.IH [of i1 "calls @ [(False, codes, labels,
             \<lparr>cam_batch_size = n, radius_fix = radius self, polar_fix = pi / 2,
              azimuthal_fix = az\<rparr>)]"]
  show ?case by (simp only: fold_simps s) simp
qed

lemma synthesize_loop_calls:
  assumes "random_latents self" and "\<forall>start \<in> set idxs. start < replica_latent_num self"
  shows "\<exists>imgs'. synthesize_loop self cam G G_kwargs idxs (imgs, calls)
           = Inr (imgs', calls @ concat (map (view_calls self) idxs))"
  using assms(2)
proof (induction idxs arbitrary: imgs calls)
  case Nil
  then show ?case by simp
next
  case (Cons start idxs)
  then have lt: "start < replica_latent_num self"
    and rest: "\<forall>s \<in> set idxs. s < replica_latent_num self" by auto
  from lt have e: "min (start + 1) (replica_latent_num self) = start + 1" by simp
  let ?st = "fold (render_view self cam G G_kwargs (randn_g1 self start 1)
                (batch_labels_of self start (start + 1)) 1)
              (np_linspace (azimuthal_start self) (azimuthal_end self) 8) (imgs, calls)"
  from fold_render_view [of self cam G G_kwargs "randn_g1 self start 1"
      "batch_labels_of self start (start + 1)" 1
      "np_linspace (azimuthal_start self) (azimuthal_end self) 8" imgs calls]
  obtain i1 where st: "?st = (i1, calls @ view_calls self start)"
    unfolding view_calls_def by blast
  from Cons.IH [OF rest, of i1 "calls @ view_calls self start"] obtain imgs' where
    "synthesize_loop self cam G G_kwargs idxs (i1, calls @ view_calls self start)
       = Inr (imgs', (calls @ view_calls self start) @ concat (map (view_calls self) idxs))"
    by blast
  with st have "synthesize_loop self cam G G_kwargs idxs ?st
       = Inr (imgs', calls @ concat (map (view_calls self) (start # idxs)))"
    by simp
  then show ?case using assms(1) e by (simp add: Let_def)
qed

lemma synthesize_loop_unbound:
  "\<not> random_latents self \<Longrightarrow> idxs \<noteq> [] \<Longrightarrow>
   synthesize_loop self cam G G_kwargs idxs st = Inl UnboundLocalError"
  by (cases idxs) (simp_all add: Let_def)

lemma synthesize_unbound:
  assumes "\<not> random_latents self" and "0 < replica_latent_num self"
  shows "synthesize self cam G G_training G_kwargs = Inl UnboundLocalError"
proof -
  from assms(2) have "py_range (replica_latent_num self) 1 \<noteq> []"
    by (simp add: py_range_one)
  from synthesize_loop_unbound [OF assms(1) this] show ?thesis
    by (simp add: synthesize_def bindE_def Let_def)
qed

lemma synthesize_returns:
  assumes ret: "synthesize self cam G G_training G_kwargs = Inr (r, t, calls)"
  shows "t = G_training"
    and "is_chief self \<Longrightarrow> \<exists>a n rest. r = Some a \<and> shape a = n # rest \<and> int n = latent_num self * 8"
    and "\<not> is_chief self \<Longrightarrow> r = None"
    and "\<exists>imgs. synthesize_loop self cam G G_kwargs (py_range (replica_latent_num self) 1) ([], [])
           = Inr (imgs, calls)"
proof -
  from ret obtain imgs calls0 where loop:
    "synthesize_loop self cam G G_kwargs (py_range (replica_latent_num self) 1) ([], [])
       = Inr (imgs, calls0)"
    by (auto simp: synthesize_def bindE_def Let_def split: sum.splits)
  from ret loop obtain a where a:
    "first_rows (gather_all_results self imgs) (latent_num self * 8) = Inr a"
    by (auto simp: synthesize_def bindE_def Let_def split: sum.splits)
  from ret loop a obtain r0 where r0:
    "(if is_chief self
      then (case shape a of [] \<Rightarrow> Inl IndexError
            | n # rest \<Rightarrow> if int n = latent_num self * 8 then Inr (Some a)
                         else Inl AssertionError)
      else bindE (array_len a) (\<lambda>n. if n = 0 then Inr None else Inl AssertionError)) = Inr r0"
    and fin: "(r, t, calls) = (r0, (if G_training then True else False), calls0)"
    by (auto simp: synthesize_def bindE_def Let_def split: sum.splits)
  from fin show "t = G_training" by simp
  from fin loop show "\<exists>imgs. synthesize_loop self cam G G_kwargs
      (py_range (replica_latent_num self) 1) ([], []) = Inr (imgs, calls)" by auto
  from r0 fin show "\<exists>a n rest. r = Some a \<and> shape a = n # rest \<and> int n = latent_num self * 8"
    if "is_chief self"
    using that by (auto split: list.splits if_splits)
  from r0 fin show "r = None" if "\<not> is_chief self"
    using that by (auto simp: bindE_def split: sum.splits if_splits)
qed

lemma synthesize_views:
  assumes rl: "random_latents self"
    and ret: "synthesize self cam G G_training G_kwargs = Inr (r, t, calls)"
  shows "calls = concat (map (view_calls self) [0..<replica_latent_num self])"
proof -
  from synthesize_returns(4) [OF ret] obtain imgs where
    l: "synthesize_loop self cam G G_kwargs [0..<replica_latent_num self] ([], [])
          = Inr (imgs, calls)"
    by (auto simp: py_range_one)
  have "\<forall>start \<in> set [0..<replica_latent_num self]. start < replica_latent_num self" by simp
  from synthesize_loop_calls [OF rl this, of cam G G_kwargs "[]" "[]"] l
  show ?thesis by auto
qed

lemma np_linspace_8:
  "length (np_linspace a b 8) = 8"
  "np_linspace a b 8 ! 0 = a"
  "np_linspace a b 8 ! 7 = b"
  "i < 8 \<Longrightarrow> np_linspace a b 8 ! i = a + real i * ((b - a) / 7)"
  by (simp_all add: np_linspace_def field_simps)

lemma fake_features_loop_calls:
  "fake_features_loop self G G_kwargs idxs (feats, calls) = (feats', calls') \<Longrightarrow>
   \<forall>c \<in> set calls. fst c = False \<Longrightarrow> \<forall>c \<in> set calls'. fst c = False"
proof (induction idxs arbitrary: feats calls)
  case Nil
  then show ?case by simp
next
  case (Cons start idxs)
  from Cons.prems(1) obtain f1 c1 where
    step: "fake_features_loop self G G_kwargs idxs (f1, calls @ [c1]) = (feats', calls')"
    and c1: "fst c1 = False"
    by (simp add: Let_def)
  from Cons.prems(2) c1 have "\<forall>c \<in> set (calls @ [c1]). fst c = False" by auto
  from Cons.IH [OF step this] show ?case .
qed

lemma extract_fake_features_returns:
  assumes ret: "extract_fake_features self G G_training G_kwargs = Inr (r, t, calls)"
  shows "t = G_training" and "\<forall>c \<in> set calls. fst c = False"
proof -
  obtain feats calls0 where loop:
    "fake_features_loop self G G_kwargs
       (py_range (replica_latent_num self) (batch_size self)) ([], []) = (feats, calls0)"
    by (cases "fake_features_loop self G G_kwargs
       (py_range (replica_latent_num self) (batch_size self)) ([], [])")
  from ret loop have fin: "t = (if G_training then True else False) \<and> calls = calls0"
    by (auto simp: extract_fake_features_def bindE_def Let_def split: sum.splits if_splits)
  then show "t = G_training" by simp
  from fake_features_loop_calls [OF loop] fin show "\<forall>c \<in> set calls. fst c = False" by simp
qed

lemma synthesize_loop_eval_calls:
  "synthesize_loop self cam G G_kwargs idxs (imgs, calls) = Inr (imgs', calls') \<Longrightarrow>
   \<forall>c \<in> set calls. fst c = False \<Longrightarrow> \<forall>c \<in> set calls'. fst c = False"
proof (induction idxs arbitrary: imgs calls)
  case Nil
  then show ?case by simp
next
  case (Cons start idxs)
  let ?codes = "randn_g1 self start (min (start + 1) (replica_latent_num self) - start)"
  let ?labels = "batch_labels_of self start (min (start + 1) (replica_latent_num self))"
  let ?n = "min (start + 1) (replica_latent_num self) - start"
  let ?st = "fold (render_view self cam G G_kwargs ?codes ?labels ?n)
              (np_linspace (azimuthal_start self) (azimuthal_end self) 8) (imgs, calls)"
  from Cons.prems(1) have rl: "random_latents self"
    by (auto simp: Let_def split: if_splits)
  with Cons.prems(1) have step: "synthesize_loop self cam G G_kwargs idxs ?st = Inr (imgs', calls')"
    by (simp add: Let_def)
  from fold_render_view [of self cam G G_kwargs ?codes ?labels ?n
      "np_linspace (azimuthal_start self) (azimuthal_end self) 8" imgs calls]
  obtain i1 where st: "?st = (i1, calls @ map (\<lambda>az. (False, ?codes, ?labels,
             \<lparr>cam_batch_size = ?n, radius_fix = radius self, polar_fix = pi / 2,
              azimuthal_fix = az\<rparr>)) (np_linspace (azimuthal_start self) (azimuthal_end self) 8))"
    by blast
  have "\<forall>c \<in> set (snd ?st). fst c = False"
    by (subst st) (use Cons.prems(2) in auto)
  with Cons.IH [of "fst ?st" "snd ?st"] step show ?case by simp
qed

text \<open>
  C7. With random latent codes \<open>synthesize\<close> renders every latent code from the eight
  views of \<open>view_calls\<close> (\<open>synthesize_views\<close>, \<open>np_linspace_8\<close>) and a returning chief
  returns \<open>latent_num * 8\<close> images (\<open>synthesize_returns\<close>). With latent codes given in
  a file (\<open>random_latents\<close> is false) the name \<open>g1\<close> is never bound, and the first
  pass of the loop raises \<open>UnboundLocalError\<close>: no latent code is rendered.
\<close>

theorem synthesize_given_latents_unbound:
  "synthesize (example_snapshot\<lparr>random_latents := False\<rparr>) example_camera example_G True []
     = Inl UnboundLocalError"
proof -
  have "\<not> random_latents (example_snapshot\<lparr>random_latents := False\<rparr>)" by simp
  moreover have "0 < replica_latent_num (example_snapshot\<lparr>random_latents := False\<rparr>)"
    by (simp add: example_snapshot_def example_base_def BaseGANMetric.defs)
  ultimately show ?thesis by (rule synthesize_unbound)
qed

text \<open>
  C10. \<open>extract_fake_features\<close> and \<open>synthesize\<close> leave the training mode of the
  generator as it was: whenever they return, \<open>G.training\<close> is what it was at entry, and
  every call of the generator in between was made in eval mode.
\<close>

theorem generator_training_mode_preserved:
  "(\<forall>r t calls. extract_fake_features kid G G_training G_kwargs = Inr (r, t, calls) \<longrightarrow>
        t = G_training \<and> (\<forall>c \<in> set calls. fst c = False))
   \<and> (\<forall>r t calls. synthesize snap cam G' G_training' G_kwargs' = Inr (r, t, calls) \<longrightarrow>
        t = G_training' \<and> (\<forall>c \<in> set calls. fst c = False))"
proof (intro conjI allI impI)
  fix r t calls
  assume "extract_fake_features kid G G_training G_kwargs = Inr (r, t, calls)"
  from extract_fake_features_returns [OF this]
  show "t = G_training" and "\<forall>c \<in> set calls. fst c = False" .
next
  fix r t calls
  assume ret: "synthesize snap cam G' G_training' G_kwargs' = Inr (r, t, calls)"
  from synthesize_returns(1) [OF ret] show "t = G_training'" .
  from synthesize_returns(4) [OF ret] obtain imgs where
    "synthesize_loop snap cam G' G_kwargs' (py_range (replica_latent_num snap) 1) ([], [])
       = Inr (imgs, calls)" by blast
  from synthesize_loop_eval_calls [OF this] show "\<forall>c \<in> set calls. fst c = False" by simp
qed

lemma upt_2: "[0..<2] = [0, 1]"
  by code_simp

lemma upt_8: "[0..<8] = [0, 1, 2, 3, 4, 5, 6, 7]"
  by code_simp

lemma example_base_sel:
  "batch_size example_base = 1" "latent_num example_base = 2" "label_dim example_base = 0"
  "is_chief example_base" "random_latents example_base" "random_labels example_base"
  "replica_latent_num example_base = 2"
  "get_replica_num example_base = (\<lambda>n. n)"
  "gather_batch_results example_base = (\<lambda>a. a)"
  "append_batch_results example_base = (\<lambda>a results. results @ [a])"
  "gather_all_results example_base
     = (\<lambda>results. \<lparr>shape = length results # (case results of [] \<Rightarrow> [] | a # rest \<Rightarrow> tl (shape a)),
                     entries = concat (map entries results)\<rparr>)"
  "randn_g1 example_base = (\<lambda>start n. replicate n (Vec [real start]))"
  by (simp_all add: example_base_def)

lemma example_kid_sel:
  "batch_size example_kid = 1" "label_dim example_kid = 0"
  "is_chief example_kid" "random_latents example_kid" "random_labels example_kid"
  "replica_latent_num example_kid = 2"
  "gather_batch_results example_kid = (\<lambda>a. a)"
  "append_batch_results example_kid = (\<lambda>a results. results @ [a])"
  "gather_all_results example_kid
     = (\<lambda>results. \<lparr>shape = length results # (case results of [] \<Rightarrow> [] | a # rest \<Rightarrow> tl (shape a)),
                     entries = concat (map entries results)\<rparr>)"
  "randn_g1 example_kid = (\<lambda>start n. replicate n (Vec [real start]))"
  "fake_num example_kid = 2"
  "inception_model example_kid
     = (\<lambda>a. \<lparr>shape = [hd (shape a), FEATURE_DIM],
              entries = replicate (hd (shape a) * FEATURE_DIM) 0\<rparr>)"
  by (simp_all add: example_kid_def example_base_sel BaseGANMetric.defs KIDMetric.defs)

lemma example_snapshot_sel:
  "latent_num example_snapshot = 2" "label_dim example_snapshot = 0"
  "is_chief example_snapshot" "random_latents example_snapshot"
  "random_labels example_snapshot" "replica_latent_num example_snapshot = 2"
  "gather_batch_results example_snapshot = (\<lambda>a. a)"
  "append_batch_results example_snapshot = (\<lambda>a results. results @ [a])"
  "gather_all_results example_snapshot
     = (\<lambda>results. \<lparr>shape = length results # (case results of [] \<Rightarrow> [] | a # rest \<Rightarrow> tl (shape a)),
                     entries = concat (map entries results)\<rparr>)"
  "randn_g1 example_snapshot = (\<lambda>start n. replicate n (Vec [real start]))"
  by (simp_all add: example_snapshot_def example_base_sel BaseGANMetric.defs
      GANSnapshotMultiView.defs)

lemma example_fake_features_return:
  "\<exists>r t calls. extract_fake_features example_kid example_G True [] = Inr (r, t, calls)"
proof -
  have "\<exists>calls. fake_features_loop example_kid example_G [] [0, 1] ([], [])
      = ([\<lparr>shape = [1, FEATURE_DIM], entries = replicate FEATURE_DIM 0\<rparr>,
          \<lparr>shape = [1, FEATURE_DIM], entries = replicate FEATURE_DIM 0\<rparr>], calls)"
    by (simp add: example_kid_sel example_G_def Let_def)
  then obtain calls where l: "fake_features_loop example_kid example_G [] [0, 1] ([], [])
      = ([\<lparr>shape = [1, FEATURE_DIM], entries = replicate FEATURE_DIM 0\<rparr>,
          \<lparr>shape = [1, FEATURE_DIM], entries = replicate FEATURE_DIM 0\<rparr>], calls)" by blast
  have r: "py_range (replica_latent_num example_kid) (batch_size example_kid) = [0, 1]"
    by (simp add: example_kid_sel py_range_one upt_2)
  show ?thesis
    unfolding extract_fake_features_def r Let_def l
    by (simp add: example_kid_sel first_rows_def bindE_def Let_def) blast
qed

lemma example_synthesize_return:
  "\<exists>r t calls. synthesize example_snapshot example_camera example_G True [] = Inr (r, t, calls)"
proof -
  let ?img = "\<lparr>shape = [1, 1, 1, 1], entries = [0]\<rparr>"
  have v: "\<exists>calls'. fold (render_view example_snapshot example_camera example_G [] codes labels n)
       azs (imgs, calls) = (imgs @ map (\<lambda>az. \<lparr>shape = [length codes, 1, 1, 1],
            entries = replicate (length codes) 0\<rparr>) azs, calls')"
    for codes labels n azs imgs calls
  proof (induction azs arbitrary: imgs calls)
    case Nil
    then show ?case by simp
  next
    case (Cons az azs)
    show ?case
      using Cons [of "imgs @ [\<lparr>shape = [length codes, 1, 1, 1],
            entries = replicate (length codes) 0\<rparr>]"]
      by (simp add: render_view_def example_snapshot_sel example_G_def Let_def)
  qed
  have l: "\<exists>calls'. synthesize_loop example_snapshot example_camera example_G [] idxs (imgs, calls)
       = Inr (imgs @ replicate (8 * length idxs) ?img, calls')"
    if "\<forall>i \<in> set idxs. i < 2" for idxs imgs calls
    using that
  proof (induction idxs arbitrary: imgs calls)
    case Nil
    then show ?case by simp
  next
    case (Cons i idxs)
    then have i: "i < 2" and rest: "\<forall>i \<in> set idxs. i < 2" by auto
    from i have m: "min (i + 1) 2 = i + 1" by simp
    from v [of "replicate 1 (Vec [real i])" "batch_labels_of example_snapshot i (i + 1)" 1
        "np_linspace (azimuthal_start example_snapshot) (azimuthal_end example_snapshot) 8"
        imgs calls]
    obtain c1 where f: "fold (render_view example_snapshot example_camera example_G []
        (replicate 1 (Vec [real i])) (batch_labels_of example_snapshot i (i + 1)) 1)
        (np_linspace (azimuthal_start example_snapshot) (azimuthal_end example_snapshot) 8)
        (imgs, calls) = (imgs @ replicate 8 ?img, c1)"
      by (auto simp: np_linspace_def map_replicate_const)
    from Cons.IH [OF rest, of "imgs @ replicate 8 ?img" c1] obtain c2 where
      "synthesize_loop example_snapshot example_camera example_G [] idxs
         (imgs @ replicate 8 ?img, c1)
       = Inr ((imgs @ replicate 8 ?img) @ replicate (8 * length idxs) ?img, c2)" by blast
    then show ?case
      using f m by (simp add: example_snapshot_sel Let_def replicate_add)
  qed
  from l [of "[0, 1]" "[]" "[]"] obtain calls where
    "synthesize_loop example_snapshot example_camera example_G [] [0, 1] ([], [])
       = Inr (replicate 16 ?img, calls)" by auto
  moreover have "py_range (replica_latent_num example_snapshot) 1 = [0, 1]"
    by (simp add: example_snapshot_sel py_range_one upt_2)
  ultimately show ?thesis
    by (simp add: synthesize_def example_snapshot_sel first_rows_def bindE_def Let_def) blast
qed

theorem generator_training_mode_preserved_witness:
  "(\<exists>r calls. extract_fake_features example_kid example_G True [] = Inr (r, True, calls))
   \<and> (\<exists>r calls. synthesize example_snapshot example_camera example_G True []
         = Inr (r, True, calls))"
proof -
  from example_fake_features_return obtain r t calls where
    a: "extract_fake_features example_kid example_G True [] = Inr (r, t, calls)" by blast
  from example_synthesize_return obtain r' t' calls' where
    b: "synthesize example_snapshot example_camera example_G True [] = Inr (r', t', calls')"
    by blast
  from generator_training_mode_preserved [where kid = example_kid and G = example_G
      and G_training = True and G_kwargs = "[]" and snap = example_snapshot
      and cam = example_camera and G' = example_G and G_training' = True and G_kwargs' = "[]"]
    a b
  have "t = True" "t' = True" by blast+
  with a b show ?thesis by blast
qed

subsection \<open>The discriminator loss\<close>

lemma broadcast_rev_same: "broadcast_rev xs xs = Some xs"
  by (induction xs) auto

lemma broadcast_shapes_same: "broadcast_shapes s s = Some s"
  by (simp add: broadcast_shapes_def broadcast_rev_same)

lemma expand_same: "length e = prod_list s \<Longrightarrow> expand s e s = e"
proof (induction s arbitrary: e)
  case Nil
  then show ?case by simp
next
  case (Cons d t)
  let ?p = "prod_list t"
  have len: "length e = d * ?p" using Cons.prems by simp
  have blocks: "\<forall>c \<in> set (map (\<lambda>k. py_slice e (k * ?p) (k * ?p + ?p)) [0..<d]). length c = ?p"
    if "0 < ?p"
    using chunks_of_batch(1) [OF that len] .
  have each: "expand t (py_slice e (k * ?p) (k * ?p + ?p)) t = py_slice e (k * ?p) (k * ?p + ?p)"
    if "k < d" for k
  proof (cases "0 < ?p")
    case True
    from blocks [OF True] that have "length (py_slice e (k * ?p) (k * ?p + ?p)) = ?p" by simp
    then show ?thesis by (rule Cons.IH)
  next
    case False
    then have "length (py_slice e (k * ?p) (k * ?p + ?p)) = ?p" by (simp add: py_slice_def)
    then show ?thesis by (rule Cons.IH)
  qed
  have "expand (d # t) e (d # t)
        = concat (map (\<lambda>k. expand t (py_slice e (k * ?p) (k * ?p + ?p)) t) [0..<d])"
    by simp
  also have "\<dots> = concat (map (\<lambda>k. py_slice e (k * ?p) (k * ?p + ?p)) [0..<d])"
  proof -
    have "map (\<lambda>k. expand t (py_slice e (k * ?p) (k * ?p + ?p)) t) [0..<d]
          = map (\<lambda>k. py_slice e (k * ?p) (k * ?p + ?p)) [0..<d]"
      by (rule map_cong [OF refl]) (simp add: each)
    then show ?thesis by (rule arg_cong)
  qed
  also have "\<dots> = e" using len by (simp add: concat_chunks)
  finally show ?case .
qed

lemma to_tensor_Sc: "to_tensor (map Sc xs) = ([length xs], xs)"
  by (cases xs) (simp_all add: to_tensor_def comp_def)

lemma tensor_add_same:
  assumes "length xs = prod_list s" and "length ys = prod_list s"
  shows "tensor_add (s, xs) (s, ys) = Inr (s, map2 (+) xs ys)"
  using assms by (simp add: tensor_add_def broadcast_shapes_same expand_same)

lemma mse_loss_same_shape:
  assumes "same_shape a b"
  shows "mse_loss (Tensor a) (Tensor b)
         = Inr (Some (MSE (snd (to_tensor a)) (snd (to_tensor b))))"
proof -
  let ?s = "fst (to_tensor a)"
  have s: "fst (to_tensor b) = ?s" and la: "length (snd (to_tensor a)) = prod_list ?s"
    and lb: "length (snd (to_tensor b)) = prod_list ?s" and ne: "snd (to_tensor a) \<noteq> []"
    using assms by (simp_all add: same_shape_def)
  have ne': "snd (to_tensor b) \<noteq> []" using ne la lb by (metis length_0_conv)
  have len: "length (snd (to_tensor a)) = length (snd (to_tensor b))" using la lb by simp
  show ?thesis
    using ne ne' len
    by (simp add: mse_loss_def as_rows_def bindE_Inr Let_def s broadcast_shapes_same
          expand_same [OF la] expand_same [OF lb [folded s], unfolded s] MSE_def)
qed


lemma mean_plus_spec:
  assumes la: "length a = n" and lb: "length b = n" and lc: "length c = n"
    and ld: "length d = n" and n: "0 < n"
  shows "mean_plus ([n], map2 (+) (map2 (+) (map2 (+) (map (\<lambda>s. F_softplus (- s)) a)
                                                     (map F_softplus b))
                                          (map (\<lambda>p. p * (g1 * (1 / 2))) c))
                              (map (\<lambda>p. p * (g2 * (1 / 2))) d)) (Some p)
         = Inr (sum_list (map (\<lambda>i. F_softplus (- (a ! i)) + F_softplus (b ! i)
                                  + g1 / 2 * (c ! i) + g2 / 2 * (d ! i) + p) [0..<n]) / real n)"
proof -
  let ?t = "map2 (+) (map2 (+) (map2 (+) (map (\<lambda>s. F_softplus (- s)) a) (map F_softplus b))
                        (map (\<lambda>p. p * (g1 * (1 / 2))) c))
              (map (\<lambda>p. p * (g2 * (1 / 2))) d)"
  have len: "length ?t = n" using la lb lc ld by simp
  have "map (\<lambda>v. v + p) ?t
        = map (\<lambda>i. F_softplus (- (a ! i)) + F_softplus (b ! i)
                    + g1 / 2 * (c ! i) + g2 / 2 * (d ! i) + p) [0..<n]"
  proof (rule nth_equalityI)
    show "length (map (\<lambda>v. v + p) ?t)
          = length (map (\<lambda>i. F_softplus (- (a ! i)) + F_softplus (b ! i)
                    + g1 / 2 * (c ! i) + g2 / 2 * (d ! i) + p) [0..<n])"
      using len by simp
  next
    fix i assume "i < length (map (\<lambda>v. v + p) ?t)"
    then have i: "i < n" using la lb lc ld by simp
    then show "map (\<lambda>v. v + p) ?t ! i
          = map (\<lambda>i. F_softplus (- (a ! i)) + F_softplus (b ! i)
                    + g1 / 2 * (c ! i) + g2 / 2 * (d ! i) + p) [0..<n] ! i"
      using la lb lc ld by (simp add: field_simps)
  qed
  moreover have "?t \<noteq> []" using len n by auto
  ultimately show ?thesis using len by (simp add: mean_plus_def)
qed

text \<open>
  C3. With mixed precision disabled, \<open>d_loss\<close> returns the loss of the specification.
  Let the three forward passes of \<open>d_loss\<close> return: \<open>run_D\<close> on the preprocessed real
  images with the scores \<open>real_score\<close>, \<open>run_G\<close> with the images \<open>fake_images\<close>, and
  \<open>run_D\<close> on these with the scores \<open>fake_score\<close>, the scores being tensors of one
  dimension with one score for each of the \<open>n > 0\<close> samples of the batch; let the
  predicted latent codes and cameras have the shapes of the latent codes and cameras of
  the generator; and let \<open>r1_penalty\<close> be the result of \<open>compute_grad_penalty\<close> for the
  real images and scores when \<open>r1_gamma\<close> is positive and identically zero otherwise,
  \<open>r2_penalty\<close> the same for the fake images and \<open>r2_gamma\<close>, each with one entry per
  sample. Then \<open>d_loss\<close> returns, and its result is the mean over the batch of
  \<open>softplus(- real_score i) + softplus(fake_score i) + r1_gamma / 2 * r1_penalty i +
  r2_gamma / 2 * r2_penalty i + id_penalty\<close>, where \<open>id_penalty\<close> is \<open>camera_gamma\<close>
  times the mean squared error of the cameras plus \<open>latent_gamma\<close> times the mean squared
  error of the latent codes.
\<close>

theorem d_loss_mean:
  assumes amp: "\<not> is_enabled (amp_scaler rn)"
    and fade: "getkw (d_loss_kwargs self) ''fade_steps'' = Inr fade_steps" "fade_steps \<noteq> 0"
    and kw: "D_kw = [(''alpha'', min 1 ((real_of_int (iter rn) - 1) / fade_steps))]"
            "G_kw = [(''noise_std'', max 0 (1 - real_of_int (iter rn) / 5000))]"
    and pre: "preprocess_image (data_image data) (lod rn) = Inr real_images"
    and run_real: "run_D rn (map Img real_images) (data_label data) sync 1 D_kw
                   = Inr (calls_real, real_results)"
    and real: "real_results ''score'' = Some (Tensor (map Sc real_score))"
    and run_gen: "run_G rn None False (batch_split self) G_kw = Inr (calls_G, fake_results)"
    and image: "fake_results ''image'' = Some (Tensor (map Img fake_images))"
    and label: "fake_results ''label'' = Some fake_label"
               "as_labels (map Img fake_images) fake_label = Inr fake_labels"
    and run_fake: "run_D rn (map Img fake_images) fake_labels sync 1 D_kw
                   = Inr (calls_fake, fake_pred_results)"
    and fake: "fake_pred_results ''score'' = Some (Tensor (map Sc fake_score))"
    and len: "length real_score = n" "length fake_score = n" "0 < n"
    and r1: "r1_penalty = (if r1_gamma self > 0
                           then compute_grad_penalty autograd_grad real_images
                                  (score_graph rn (data_label data) sync D_kw) (amp_scaler rn)
                           else replicate n 0)"
    and r2: "r2_penalty = (if r2_gamma self > 0
                           then compute_grad_penalty autograd_grad fake_images
                                  (score_graph rn fake_labels sync D_kw) (amp_scaler rn)
                           else replicate n 0)"
    and lenr: "length r1_penalty = n" "length r2_penalty = n"
    and latent: "fake_pred_results ''latent'' = Some (Tensor pred_latent)"
                "fake_results ''latent'' = Some (Tensor fake_latent)"
                "same_shape pred_latent fake_latent"
    and camera: "fake_pred_results ''camera'' = Some (Tensor pred_camera)"
                "fake_results ''camera'' = Some (Tensor fake_camera)"
                "same_shape pred_camera fake_camera"
  shows "d_loss autograd_grad self rn data sync
         = Inr (d_loss_spec self n real_score fake_score r1_penalty r2_penalty
                  (camera_gamma self * MSE (snd (to_tensor pred_camera)) (snd (to_tensor fake_camera))
                   + latent_gamma self * MSE (snd (to_tensor pred_latent)) (snd (to_tensor fake_latent))))"
proof -
  let ?sc = "amp_scaler rn"
  have sc: "scale ?sc = (\<lambda>x. x)" using amp by (simp add: scale_def fun_eq_iff)
  let ?A = "map (\<lambda>s. F_softplus (- s)) real_score"
  let ?B = "map F_softplus fake_score"
  have img: "list_all (\<lambda>r. slice_image r \<noteq> None) (map Img fake_images)"
    by (simp add: list_all_iff)
  have imgs: "map (\<lambda>r. the (slice_image r)) (map Img fake_images) = fake_images"
    by (simp add: comp_def)
  have asimg: "as_images (map Img fake_images) = Inr fake_images"
    using img imgs by (simp add: as_images_def)
  have R1: "(if r1_gamma self > 0
             then let penalty = compute_grad_penalty autograd_grad real_images
                                  (score_graph rn (data_label data) sync D_kw) ?sc
                  in Inr ([length penalty], map (\<lambda>x. x) penalty)
             else Inr (tensor_map (\<lambda>v. 0) ([n], ?A)))
            = (Inr ([n], r1_penalty) :: py_error + ndtensor)"
  proof (cases "r1_gamma self > 0")
    case True
    then show ?thesis using r1 lenr(1) by (simp add: Let_def sc)
  next
    case False
    have "map (\<lambda>v. 0::real) ?A = replicate n 0"
      using len(1) by (simp add: map_replicate_const)
    then show ?thesis using False r1 by (simp add: tensor_map_def)
  qed
  have R2: "(if r2_gamma self > 0
             then bindE (as_images (map Img fake_images)) (\<lambda>fake_images.
                    let penalty = compute_grad_penalty autograd_grad fake_images
                                    (score_graph rn fake_labels sync D_kw) ?sc
                    in Inr ([length penalty], map (\<lambda>x. x) penalty))
             else Inr (tensor_map (\<lambda>v. 0) ([n], ?B)))
            = (Inr ([n], r2_penalty) :: py_error + ndtensor)"
  proof (cases "r2_gamma self > 0")
    case True
    then show ?thesis using r2 lenr(2) by (simp add: Let_def sc asimg bindE_Inr)
  next
    case False
    have "map (\<lambda>v. 0::real) ?B = replicate n 0"
      using len(2) by (simp add: map_replicate_const)
    then show ?thesis using False r2 by (simp add: tensor_map_def)
  qed
  have T1: "tensor_add ([n], ?A) ([n], ?B) = Inr ([n], map2 (+) ?A ?B)"
    by (rule tensor_add_same) (simp_all add: len)
  have T2: "tensor_add ([n], map2 (+) ?A ?B)
              (tensor_map (\<lambda>p. p * (r1_gamma self * (1 / 2))) ([n], r1_penalty))
            = Inr ([n], map2 (+) (map2 (+) ?A ?B)
                          (map (\<lambda>p. p * (r1_gamma self * (1 / 2))) r1_penalty))"
    unfolding tensor_map_def fst_conv snd_conv
    by (rule tensor_add_same) (simp_all add: len lenr)
  have T3: "tensor_add ([n], map2 (+) (map2 (+) ?A ?B)
                          (map (\<lambda>p. p * (r1_gamma self * (1 / 2))) r1_penalty))
              (tensor_map (\<lambda>p. p * (r2_gamma self * (1 / 2))) ([n], r2_penalty))
            = Inr ([n], map2 (+) (map2 (+) (map2 (+) ?A ?B)
                          (map (\<lambda>p. p * (r1_gamma self * (1 / 2))) r1_penalty))
                          (map (\<lambda>p. p * (r2_gamma self * (1 / 2))) r2_penalty))"
    unfolding tensor_map_def fst_conv snd_conv
    by (rule tensor_add_same) (simp_all add: len lenr)
  have M: "mean_plus ([n], map2 (+) (map2 (+) (map2 (+) ?A ?B)
                          (map (\<lambda>p. p * (r1_gamma self * (1 / 2))) r1_penalty))
                          (map (\<lambda>p. p * (r2_gamma self * (1 / 2))) r2_penalty)) (Some p)
           = Inr (d_loss_spec self n real_score fake_score r1_penalty r2_penalty p)" for p
    unfolding d_loss_spec_def
    by (rule mean_plus_spec [OF len(1) len(2) lenr(1) lenr(2) len(3)])
  have real_t: "tensor_map (\<lambda>s. F_softplus (- s)) (to_tensor (map Sc real_score))
                = ([n], ?A)"
    by (simp add: to_tensor_Sc tensor_map_def sc len)
  have fake_t: "tensor_map F_softplus (to_tensor (map Sc fake_score))
                = ([n], ?B)"
    by (simp add: to_tensor_Sc tensor_map_def sc len)
  have comm: "MSE (snd (to_tensor pred_camera)) (snd (to_tensor fake_camera)) * camera_gamma self
              + MSE (snd (to_tensor pred_latent)) (snd (to_tensor fake_latent)) * latent_gamma self
              = camera_gamma self * MSE (snd (to_tensor pred_camera)) (snd (to_tensor fake_camera))
              + latent_gamma self * MSE (snd (to_tensor pred_latent)) (snd (to_tensor fake_latent))"
    by (simp add: mult.commute)
  show ?thesis
    unfolding d_loss_def Let_def
    by (simp only: fade bindE_Inr if_False kw [symmetric] pre run_real split_conv
          getitem_def real option.case as_operand_def pyval.case run_gen image label
          as_rows_def run_fake fake latent camera
          mse_loss_same_shape [OF latent(3)] mse_loss_same_shape [OF camera(3)]
          sc prod.case real_t fake_t R1 [unfolded Let_def] R2 [unfolded Let_def]
          T1 T2 T3 comm M)
qed


lemma pixel_runner_sel:
  "runner.batch_size pixel_runner = 2" "iter pixel_runner = 1" "lod pixel_runner = 0"
  "amp_scaler pixel_runner = \<lparr>is_enabled = False, scale_factor = 1\<rparr>"
  "generator_label_dim pixel_runner = 0"
  "generator pixel_runner = pixel_generator"
  "discriminator pixel_runner = pixel_discriminator"
  "model_kwargs_train_generator pixel_runner = []"
  "model_kwargs_train_discriminator pixel_runner = []"
  "augment pixel_runner = (\<lambda>x. x)"
  "latent_noise pixel_runner = (\<lambda>i. Vec [real i])"
  by (simp_all add: pixel_runner_def)

lemma pixel_loss_sel:
  "d_loss_kwargs pixel_loss = [(''fade_steps'', 10000), (''r2_gamma'', 1), (''latent_gamma'', 2)]"
  "r1_gamma pixel_loss = 10" "r2_gamma pixel_loss = 1" "latent_gamma pixel_loss = 2"
  "camera_gamma pixel_loss = 15" "batch_split pixel_loss = 2"
  by (simp_all add: pixel_loss_def PiGANLoss_init_def dict_get_def)

lemma div_3_2: "Suc (Suc (Suc 0)) div Suc (Suc 0) = Suc 0"
  by code_simp

lemma pixel_run_D:
  "run_D pixel_runner [Img [[[a]]], Img [[[b]]]] None sync 1 [(''alpha'', al)]
   = Inr ([([Img [[[a]]], Img [[[b]]]], None)],
          [''score'' \<mapsto> Tensor [Sc (2 * a), Sc (2 * b)],
           ''latent'' \<mapsto> Tensor [Vec [0], Vec [0]],
           ''camera'' \<mapsto> Tensor [Vec [0, 0], Vec [0, 0]]])"
  by (simp add: run_D_def pixel_runner_sel py_range_def py_slice_def pixel_discriminator_def
        div_3_2)

lemma pixel_run_G:
  "run_G pixel_runner None False 2 [(''noise_std'', ns)]
   = Inr ([([Vec [0]], None), ([Vec [1]], None)],
          [''image'' \<mapsto> Tensor [Img [[[0]]], Img [[[1]]]],
           ''label'' \<mapsto> PNone,
           ''latent'' \<mapsto> Tensor [Vec [0], Vec [1]],
           ''camera'' \<mapsto> Tensor [Vec [0, 1], Vec [0, 1]]])"
  by (simp add: run_G_def pixel_runner_sel effective_batch_size_def py_range_def py_slice_def
        pixel_generator_def upt_2 torch_cat_def)

lemma pixel_score_graph:
  "score_graph pixel_runner None sync [(''alpha'', al)] [[[[a]]], [[[b]]]] = [2 * a, 2 * b]"
  by (simp add: score_graph_def pixel_run_D [unfolded One_nat_def] pixel_run_D bindE_Inr
        getitem_def as_operand_def to_tensor_def)

lemma pixel_penalty:
  "compute_grad_penalty pixel_autograd [[[[a]]], [[[b]]]]
     (score_graph pixel_runner None sync [(''alpha'', al)]) (amp_scaler pixel_runner) = [4, 4]"
  by (simp add: compute_grad_penalty_def pixel_autograd_def pixel_runner_sel scale_def upt_2
        upd4_def pixel_score_graph square_sum123_def Let_def)


lemma pixel_same_shape:
  "same_shape [Vec [0], Vec [0]] [Vec [0], Vec [1]]"
  "same_shape [Vec [0, 0], Vec [0, 0]] [Vec [0, 1], Vec [0, 1]]"
  by (simp_all add: same_shape_def to_tensor_def)

lemma pixel_MSE:
  "MSE (snd (to_tensor [Vec [0], Vec [0]])) (snd (to_tensor [Vec [0], Vec [1]])) = 1 / 2"
  "MSE (snd (to_tensor [Vec [0, 0], Vec [0, 0]])) (snd (to_tensor [Vec [0, 1], Vec [0, 1]])) = 1 / 2"
  by (simp_all add: MSE_def to_tensor_def)

theorem d_loss_mean_witness:
  "d_loss pixel_autograd pixel_loss pixel_runner pixel_data True
   = Inr (d_loss_spec pixel_loss 2 [6, 2] [0, 2] [4, 4] [4, 4] (17 / 2))"
proof -
  let ?D_kw = "[(''alpha'', min 1 ((real_of_int (iter pixel_runner) - 1) / 10000))]"
  let ?G_kw = "[(''noise_std'', max 0 (1 - real_of_int (iter pixel_runner) / 5000))]"
  let ?real = "[''score'' \<mapsto> Tensor [Sc (2 * 3), Sc (2 * 1)],
                ''latent'' \<mapsto> Tensor [Vec [0], Vec [0]],
                ''camera'' \<mapsto> Tensor [Vec [0, 0], Vec [0, 0]]]"
  let ?fake = "[''image'' \<mapsto> Tensor [Img [[[0]]], Img [[[1]]]],
                ''label'' \<mapsto> PNone,
                ''latent'' \<mapsto> Tensor [Vec [0], Vec [1]],
                ''camera'' \<mapsto> Tensor [Vec [0, 1], Vec [0, 1]]]"
  let ?pred = "[''score'' \<mapsto> Tensor [Sc (2 * 0), Sc (2 * 1)],
                ''latent'' \<mapsto> Tensor [Vec [0], Vec [0]],
                ''camera'' \<mapsto> Tensor [Vec [0, 0], Vec [0, 0]]]"
  have amp: "\<not> is_enabled (amp_scaler pixel_runner)"
    by (simp add: pixel_runner_sel)
  have fade: "getkw (d_loss_kwargs pixel_loss) ''fade_steps'' = Inr 10000" "(10000::real) \<noteq> 0"
    by (simp_all add: pixel_loss_sel getkw_def)
  have pre: "preprocess_image (data_image pixel_data) (lod pixel_runner) = Inr [[[[3]]], [[[1]]]]"
    by (simp add: pixel_data_def pixel_runner_sel preprocess_image_zero)
  have run_real: "run_D pixel_runner (map Img [[[[3]]], [[[1]]]]) (data_label pixel_data) True 1 ?D_kw
                  = Inr ([([Img [[[3]]], Img [[[1]]]], None)], ?real)"
    using pixel_run_D [of 3 1 True] by (simp add: pixel_data_def)
  have real: "?real ''score'' = Some (Tensor (map Sc [6, 2]))" by simp
  have run_gen: "run_G pixel_runner None False (batch_split pixel_loss) ?G_kw
                 = Inr ([([Vec [0]], None), ([Vec [1]], None)], ?fake)"
    by (simp only: pixel_loss_sel pixel_run_G)
  have image: "?fake ''image'' = Some (Tensor (map Img [[[[0]]], [[[1]]]]))" by simp
  have label: "?fake ''label'' = Some PNone"
    "as_labels (map Img [[[[0]]], [[[1]]]]) PNone = Inr None"
    by (simp_all add: as_labels_def)
  have run_fake: "run_D pixel_runner (map Img [[[[0]]], [[[1]]]]) None True 1 ?D_kw
                  = Inr ([([Img [[[0]]], Img [[[1]]]], None)], ?pred)"
    using pixel_run_D [of 0 1 True] by simp
  have fake: "?pred ''score'' = Some (Tensor (map Sc [0, 2]))" by simp
  have len: "length [6, 2::real] = 2" "length [0, 2::real] = 2" "0 < (2::nat)" by simp_all
  have r1: "[4, 4] = (if r1_gamma pixel_loss > 0
                      then compute_grad_penalty pixel_autograd [[[[3]]], [[[1]]]]
                             (score_graph pixel_runner (data_label pixel_data) True ?D_kw)
                             (amp_scaler pixel_runner)
                      else replicate 2 0)"
    by (simp add: pixel_loss_sel pixel_data_def pixel_penalty)
  have r2: "[4, 4] = (if r2_gamma pixel_loss > 0
                      then compute_grad_penalty pixel_autograd [[[[0]]], [[[1]]]]
                             (score_graph pixel_runner None True ?D_kw)
                             (amp_scaler pixel_runner)
                      else replicate 2 0)"
    by (simp add: pixel_loss_sel pixel_penalty)
  have lenr: "length [4, 4::real] = 2" by simp
  have latent: "?pred ''latent'' = Some (Tensor [Vec [0], Vec [0]])"
    "?fake ''latent'' = Some (Tensor [Vec [0], Vec [1]])" by simp_all
  have camera: "?pred ''camera'' = Some (Tensor [Vec [0, 0], Vec [0, 0]])"
    "?fake ''camera'' = Some (Tensor [Vec [0, 1], Vec [0, 1]])" by simp_all
  have idp: "camera_gamma pixel_loss * (1 / 2) + latent_gamma pixel_loss * (1 / 2) = 17 / 2"
    by (simp add: pixel_loss_sel)
  from d_loss_mean [where rn = pixel_runner and self = pixel_loss and data = pixel_data
      and autograd_grad = pixel_autograd and sync = True and n = 2,
      OF amp fade refl refl pre run_real real run_gen image label run_fake fake len r1 r2
         lenr lenr latent pixel_same_shape(1) camera pixel_same_shape(2)]
  show ?thesis by (simp only: pixel_MSE idp)
qed

end
